theory Spec2Isabelle
  imports Complex_Main "HOL-Library.Word"
begin

section \<open>JavaScript values used by \<^verbatim>\<open>index.js\<close>\<close>

text \<open>
  A JavaScript string is a sequence of UTF-16 code units; \<^verbatim>\<open>length\<close>,
  \<^verbatim>\<open>slice\<close>, \<^verbatim>\<open>trim\<close> and the regular expression class
  \<^verbatim>\<open>\s\<close> all work on code units. ASCII literals of the source are written
  with \<open>utf16\<close>; every other character is given by its code units.
\<close>

type_synonym code_unit = "16 word"
type_synonym jsstring = "code_unit list"

definition cu :: "char \<Rightarrow> code_unit" where
  "cu c = of_char c"

definition utf16 :: "string \<Rightarrow> jsstring" where
  "utf16 s = map cu s"

text \<open>
  The characters that \<^verbatim>\<open>String.prototype.trim\<close> strips and that
  \<^verbatim>\<open>\s\<close> matches (ECMAScript WhiteSpace and LineTerminator): TAB, LF, VT, FF,
  CR, SPACE, NBSP, U+1680, U+2000..U+200A, U+2028, U+2029, U+202F, U+205F, U+3000, U+FEFF.
\<close>

definition isWhiteSpace :: "code_unit \<Rightarrow> bool" where
  "isWhiteSpace c =
     (c \<in> {0x0009, 0x000A, 0x000B, 0x000C, 0x000D, 0x0020, 0x00A0, 0x1680,
            0x2000, 0x2001, 0x2002, 0x2003, 0x2004, 0x2005, 0x2006, 0x2007,
            0x2008, 0x2009, 0x200A, 0x2028, 0x2029, 0x202F, 0x205F, 0x3000, 0xFEFF})"

text \<open>\<^verbatim>\<open>s.trim()\<close>\<close>

definition trim :: "jsstring \<Rightarrow> jsstring" where
  "trim s = rev (dropWhile isWhiteSpace (rev (dropWhile isWhiteSpace s)))"

text \<open>
  \<^verbatim>\<open>s.replace(/\s+/g, " ")\<close>: scanning from the left, every match of
  \<^verbatim>\<open>\s+\<close> (a maximal run of white space, the quantifier being greedy) is
  replaced by one SPACE.
\<close>

function replace_ws_runs :: "jsstring \<Rightarrow> jsstring" where
  "replace_ws_runs [] = []"
| "replace_ws_runs (c # cs) =
     (if isWhiteSpace c then 0x0020 # replace_ws_runs (dropWhile isWhiteSpace cs)
      else c # replace_ws_runs cs)"
  by pat_completeness auto
termination
  by (relation "measure length") (auto simp: le_imp_less_Suc length_dropWhile_le)

text \<open>
  A value of the parsed JSON body as \<^verbatim>\<open>String(str || "")\<close> reads it: a falsy one
  (\<^verbatim>\<open>undefined\<close> for a missing field, \<^verbatim>\<open>null\<close>, \<^verbatim>\<open>false\<close>,
  \<^verbatim>\<open>0\<close>, the empty string), a truthy one with the string that
  \<^verbatim>\<open>String\<close> makes of it (a string is its own), or a truthy one of which
  \<^verbatim>\<open>String\<close> throws TypeError (an object such as \<^verbatim>\<open>{"toString": 1}\<close>,
  whose \<^verbatim>\<open>toString\<close> is no function and whose \<^verbatim>\<open>valueOf\<close> gives no
  primitive value).
\<close>

datatype js_value = Falsy | Stringable jsstring | Unstringable

datatype js_error = TypeError | URIError | SendMailError

text \<open>\<^verbatim>\<open>String(str || "")\<close>\<close>

fun String_or_empty :: "js_value \<Rightarrow> js_error + jsstring" where
  "String_or_empty Falsy = Inr []"
| "String_or_empty (Stringable v) = Inr v"
| "String_or_empty Unstringable = Inl TypeError"

text \<open>
  \<^verbatim>\<open>function cleanText(str, maxLen)\<close>: \<open>Inl e\<close> when it throws \<open>e\<close>,
  \<open>Inr t\<close> when it returns \<open>t\<close>. \<^verbatim>\<open>slice(0, maxLen)\<close> with
  \<open>maxLen\<close> \<open>\<ge> 0\<close> keeps the first \<open>maxLen\<close> code units.
\<close>

definition cleanText :: "js_value \<Rightarrow> nat \<Rightarrow> js_error + jsstring" where
  "cleanText str maxLen =
     (case String_or_empty str of
        Inl e \<Rightarrow> Inl e
      | Inr v \<Rightarrow>
          (let s = trim v
           in Inr (if s = [] then [] else take maxLen (replace_ws_runs s))))"

text \<open>
  \<^verbatim>\<open>str.replaceAll(p, r)\<close> for a pattern \<open>p\<close> of one code unit and a
  replacement without \<^verbatim>\<open>$\<close>: every occurrence of \<open>p\<close> becomes \<open>r\<close>.
\<close>

fun replaceAll :: "code_unit \<Rightarrow> jsstring \<Rightarrow> jsstring \<Rightarrow> jsstring" where
  "replaceAll p r [] = []"
| "replaceAll p r (c # cs) = (if c = p then r @ replaceAll p r cs else c # replaceAll p r cs)"

text \<open>\<^verbatim>\<open>function escapeHtml(str)\<close>: five successive replacements, in this order.\<close>

definition escapeHtml :: "jsstring \<Rightarrow> jsstring" where
  "escapeHtml str =
     replaceAll (cu CHR 0x27) (utf16 ''&#039;'')
       (replaceAll (cu CHR 0x22) (utf16 ''&quot;'')
         (replaceAll (cu CHR ''>'') (utf16 ''&gt;'')
           (replaceAll (cu CHR ''<'') (utf16 ''&lt;'')
             (replaceAll (cu CHR ''&'') (utf16 ''&amp;'') str))))"


text \<open>
  A JavaScript number: NaN, an infinity (\<open>True\<close> for the positive one) or a finite
  value, which is a rational; both zeros have the value 0. The model reads numbers only
  through their truth value and through numeric equality with an integer.
\<close>

datatype js_number = NaN | Infinity bool | Finite rat

text \<open>ToBoolean on a number: \<^verbatim>\<open>!id\<close> holds exactly for NaN and zero.\<close>

fun truthy_number :: "js_number \<Rightarrow> bool" where
  "truthy_number NaN = False"
| "truthy_number (Infinity _) = True"
| "truthy_number (Finite q) = (q \<noteq> 0)"

text \<open>
  \<^verbatim>\<open>`${entry.id}`\<close>: the decimal digits of an integer (JavaScript prints
  integral numbers below \<open>10\<^sup>2\<^sup>1\<close> this way).
\<close>

fun digits :: "nat \<Rightarrow> jsstring" where
  "digits n = (if n < 10 then [0x0030 + of_nat n]
               else digits (n div 10) @ [0x0030 + of_nat (n mod 10)])"

declare digits.simps [simp del]

definition numberToString :: "int \<Rightarrow> jsstring" where
  "numberToString i = (if i < 0 then 0x002D # digits (nat (- i)) else digits (nat i))"


section \<open>Configuration and the outside world\<close>

text \<open>
  The constants of the section KONFIG, computed once from the environment, and the three
  SMTP variables that \<^verbatim>\<open>hasSmtp\<close> reads (\<open>None\<close>: the variable is not set).
\<close>

record config =
  PUBLIC_BASE_URL :: jsstring
  ADMIN_TOKEN :: jsstring
  MAIL_TO :: jsstring
  MAIL_FROM :: jsstring
  SMTP_HOST :: "jsstring option"
  SMTP_USER :: "jsstring option"
  SMTP_PASS :: "jsstring option"

record mail =
  mail_from :: jsstring
  mail_to :: jsstring
  subject :: jsstring
  html :: jsstring

text \<open>
  What a request handler takes from outside the program: the clock behind
  \<^verbatim>\<open>nowIso()\<close>, the outcome of \<^verbatim>\<open>transporter.sendMail\<close> (\<open>True\<close>: the
  promise resolves, \<open>False\<close>: it rejects), and the built-in
  \<^verbatim>\<open>encodeURIComponent\<close> (\<open>None\<close>: it throws URIError, as it does on a lone
  surrogate). The promise of the transport is taken to settle, which the transport's
  own timeouts see to.
\<close>

record env =
  nowIso :: jsstring
  sendMail :: "mail \<Rightarrow> bool"
  encodeURIComponent :: "jsstring \<Rightarrow> jsstring option"


section \<open>The table \<^verbatim>\<open>entries\<close> and its prepared statements\<close>

datatype status = pending | approved | rejected

text \<open>
  The columns that \<^verbatim>\<open>stmtApproved\<close> selects, which are also the fields of the
  object \<^verbatim>\<open>created\<close>; a row of the table has the column \<open>status\<close> as well.
\<close>

record public_row =
  id' :: int
  name :: jsstring
  message :: jsstring
  created_at :: jsstring

record entry = public_row +
  status :: status

text \<open>
  The database: the rows in insertion order, and the counter that SQLite keeps for an
  AUTOINCREMENT key (the largest rowid the table has ever held). The statements are
  those of a working database: none of them fails.
\<close>

record store =
  entries :: "entry list"
  seq :: int

definition empty_db :: store where
  "empty_db = \<lparr>entries = [], seq = 0\<rparr>"

text \<open>
  A JavaScript string bound to a statement is written to the database as UTF-8, and a
  TEXT column is read back from UTF-8. UTF-8 has no encoding of a surrogate code point, so
  a high surrogate (\<open>D800\<close> to \<open>DBFF\<close>) that no low surrogate (\<open>DC00\<close> to
  \<open>DFFF\<close>) follows, and a low surrogate that follows no high one, is stored as the
  replacement character \<open>FFFD\<close>. \<open>sqlite_text s\<close> is the string that the database
  holds for \<open>s\<close>.
\<close>

definition isHighSurrogate :: "code_unit \<Rightarrow> bool" where
  "isHighSurrogate c = (0xD800 \<le> c \<and> c \<le> 0xDBFF)"

definition isLowSurrogate :: "code_unit \<Rightarrow> bool" where
  "isLowSurrogate c = (0xDC00 \<le> c \<and> c \<le> 0xDFFF)"

fun sqlite_text :: "jsstring \<Rightarrow> jsstring" where
  "sqlite_text [] = []"
| "sqlite_text [c] = [if isHighSurrogate c \<or> isLowSurrogate c then 0xFFFD else c]"
| "sqlite_text (c # d # cs) =
     (if isHighSurrogate c \<and> isLowSurrogate d then c # d # sqlite_text cs
      else (if isHighSurrogate c \<or> isLowSurrogate c then 0xFFFD else c) # sqlite_text (d # cs))"

text \<open>
  \<^verbatim>\<open>stmtInsert.run(entry)\<close>: the new rowid is one more than the largest rowid
  that has existed; the result is \<^verbatim>\<open>info.lastInsertRowid\<close> and the new database.
\<close>

definition stmtInsert :: "store \<Rightarrow> jsstring \<Rightarrow> jsstring \<Rightarrow> jsstring \<Rightarrow> int \<times> store" where
  "stmtInsert db n m c =
     (let rowid = fold max (map id' (entries db)) (seq db) + 1
      in (rowid,
          \<lparr>entries = entries db @
             [\<lparr>id' = rowid, name = sqlite_text n, message = sqlite_text m,
               created_at = sqlite_text c, status = pending\<rparr>],
           seq = rowid\<rparr>))"

text \<open>\<^verbatim>\<open>ORDER BY id DESC\<close>\<close>

definition order_by_id_desc :: "entry list \<Rightarrow> entry list" where
  "order_by_id_desc es = rev (sort_key id' es)"

text \<open>
  \<^verbatim>\<open>SELECT id, name, message, created_at FROM entries WHERE status='approved'
  ORDER BY id DESC LIMIT 50\<close>
\<close>

definition stmtApproved :: "store \<Rightarrow> public_row list" where
  "stmtApproved db =
     take 50
       (map (\<lambda>e. \<lparr>id' = id' e, name = name e, message = message e, created_at = created_at e\<rparr>)
         (order_by_id_desc (filter (\<lambda>e. status e = approved) (entries db))))"

text \<open>
  \<^verbatim>\<open>SELECT id, name, message, status, created_at FROM entries WHERE status='pending'
  ORDER BY id DESC\<close>
\<close>

definition stmtPending :: "store \<Rightarrow> entry list" where
  "stmtPending db = order_by_id_desc (filter (\<lambda>e. status e = pending) (entries db))"

text \<open>
  \<^verbatim>\<open>WHERE id=@id\<close> with a bound JavaScript number: SQLite compares the integer
  key with the number by value, so NaN and the infinities equal no key.
\<close>

fun id_equals :: "int \<Rightarrow> js_number \<Rightarrow> bool" where
  "id_equals i (Finite q) = (of_int i = q)"
| "id_equals i NaN = False"
| "id_equals i (Infinity _) = False"

text \<open>
  \<^verbatim>\<open>stmtSetStatus.run({ id, status })\<close>, that is
  \<^verbatim>\<open>UPDATE entries SET status=@status WHERE id=@id\<close>: the result is
  \<^verbatim>\<open>info.changes\<close> (the number of rows matched) and the new database.
\<close>

definition stmtSetStatus :: "store \<Rightarrow> js_number \<Rightarrow> status \<Rightarrow> nat \<times> store" where
  "stmtSetStatus db i st =
     (length (filter (\<lambda>e. id_equals (id' e) i) (entries db)),
      db\<lparr>entries := map (\<lambda>e. if id_equals (id' e) i then e\<lparr>status := st\<rparr> else e) (entries db)\<rparr>)"


section \<open>Email\<close>

text \<open>\<^verbatim>\<open>String(process.env.X || "").trim()\<close> is truthy.\<close>

definition env_set :: "jsstring option \<Rightarrow> bool" where
  "env_set v = (trim (case v of None \<Rightarrow> [] | Some s \<Rightarrow> s) \<noteq> [])"

definition hasSmtp :: "config \<Rightarrow> bool" where
  "hasSmtp cfg = (env_set (SMTP_HOST cfg) \<and> env_set (SMTP_USER cfg) \<and> env_set (SMTP_PASS cfg))"

text \<open>
  The template literal of \<^verbatim>\<open>buildMailHtml\<close>, cut at its five interpolations.
\<close>

definition mail_html_0 :: jsstring where
  \<open>mail_html_0 = concat
     [[0x000A],
      utf16 ''<div style="font-family:system-ui,-apple-system,Segoe UI,Roboto,Ubuntu,Cantarell,Noto Sans,sans-serif;font-size:14px;line-height:1.5;color:#111827">'', [0x000A],
      utf16 ''  <h2 style="margin:0 0 10px 0;font-size:18px;">'', [0xD83E, 0xDDF1], utf16 '' Neuer G'', [0x00E4], utf16 ''stebuch-Eintrag (Freigabe n'', [0x00F6], utf16 ''tig)</h2>'', [0x000A],
      [0x000A],
      utf16 ''  <p style="margin:0 0 10px 0;">'', [0x000A],
      utf16 ''    Ein neuer Eintrag wurde eingereicht und wartet auf deine Freigabe.'', [0x000A],
      utf16 ''  </p>'', [0x000A],
      [0x000A],
      utf16 ''  <div style="border:1px solid #e5e7eb;border-radius:12px;padding:12px;background:#f9fafb;margin:12px 0;">'', [0x000A],
      utf16 ''    <p style="margin:0 0 6px 0;"><strong>Name:</strong> '']\<close>

definition mail_html_1 :: jsstring where
  \<open>mail_html_1 = concat
     [utf16 ''</p>'', [0x000A],
      utf16 ''    <p style="margin:0 0 6px 0;"><strong>Nachricht:</strong><br>'']\<close>

definition mail_html_2 :: jsstring where
  \<open>mail_html_2 = concat
     [utf16 ''</p>'', [0x000A],
      utf16 ''    <p style="margin:0;"><strong>Zeit:</strong> '']\<close>

definition mail_html_3 :: jsstring where
  \<open>mail_html_3 = concat
     [utf16 ''</p>'', [0x000A],
      utf16 ''  </div>'', [0x000A],
      [0x000A],
      utf16 ''  <p style="margin:14px 0 6px 0;"><strong>'', [0x2705], utf16 '' Freigeben:</strong></p>'', [0x000A],
      utf16 ''  <p style="margin:0 0 10px 0;">'', [0x000A],
      utf16 ''    <a href="'']\<close>

definition mail_html_4 :: jsstring where
  \<open>mail_html_4 = concat
     [utf16 ''" style="display:inline-block;background:#16a34a;color:white;text-decoration:none;padding:10px 14px;border-radius:10px;font-weight:700;">'', [0x000A],
      utf16 ''      Eintrag freigeben'', [0x000A],
      utf16 ''    </a>'', [0x000A],
      utf16 ''  </p>'', [0x000A],
      [0x000A],
      utf16 ''  <p style="margin:10px 0 6px 0;"><strong>'', [0x274C], utf16 '' Ablehnen/L'', [0x00F6], utf16 ''schen:</strong></p>'', [0x000A],
      utf16 ''  <p style="margin:0 0 14px 0;">'', [0x000A],
      utf16 ''    <a href="'']\<close>

definition mail_html_5 :: jsstring where
  \<open>mail_html_5 = concat
     [utf16 ''" style="display:inline-block;background:#dc2626;color:white;text-decoration:none;padding:10px 14px;border-radius:10px;font-weight:700;">'', [0x000A],
      utf16 ''      Eintrag ablehnen'', [0x000A],
      utf16 ''    </a>'', [0x000A],
      utf16 ''  </p>'', [0x000A],
      [0x000A],
      utf16 ''  <p style="margin:0;color:#6b7280;font-size:12px;">'', [0x000A],
      utf16 ''    Hinweis: Bitte nur klicken, wenn du den Eintrag wirklich so ver'', [0x00F6], utf16 ''ffentlichen willst.'', [0x000A],
      utf16 ''  </p>'', [0x000A],
      utf16 ''</div>'', [0x000A]]\<close>

text \<open>\<^verbatim>\<open>function buildMailHtml({ name, message, created_at, approve_url, reject_url })\<close>\<close>

definition buildMailHtml :: "jsstring \<Rightarrow> jsstring \<Rightarrow> jsstring \<Rightarrow> jsstring \<Rightarrow> jsstring \<Rightarrow> jsstring" where
  "buildMailHtml n m c approve_url reject_url =
     trim (mail_html_0 @ escapeHtml n @ mail_html_1 @ escapeHtml m @ mail_html_2 @ escapeHtml c
           @ mail_html_3 @ approve_url @ mail_html_4 @ reject_url @ mail_html_5)"

definition mail_subject :: jsstring where
  "mail_subject = concat
     [[0xD83E, 0xDDF1], utf16 '' Neuer G'', [0x00E4], utf16 ''stebuch-Eintrag (Freigabe n'',
      [0x00F6], utf16 ''tig)'']"

text \<open>
  \<^verbatim>\<open>async function sendModerationMail(entry)\<close>: the result is \<open>Inr ()\<close> when
  the promise resolves and \<open>Inl e\<close> when it rejects, together with the mails handed to
  the transport.
\<close>

definition sendModerationMail :: "config \<Rightarrow> env \<Rightarrow> public_row \<Rightarrow> (js_error + unit) \<times> mail list" where
  "sendModerationMail cfg ev e =
     (if \<not> hasSmtp cfg then (Inr (), [])
      else case encodeURIComponent ev (ADMIN_TOKEN cfg) of
        None \<Rightarrow> (Inl URIError, [])
      | Some t \<Rightarrow>
          (let approve_url = PUBLIC_BASE_URL cfg @ utf16 ''/admin/approve?id='' @ numberToString (id' e)
                               @ utf16 ''&token='' @ t;
               reject_url = PUBLIC_BASE_URL cfg @ utf16 ''/admin/reject?id='' @ numberToString (id' e)
                               @ utf16 ''&token='' @ t;
               m = \<lparr>mail_from = MAIL_FROM cfg, mail_to = MAIL_TO cfg, subject = mail_subject,
                    html = buildMailHtml (name e) (message e) (created_at e) approve_url reject_url\<rparr>
           in if sendMail ev m then (Inr (), [m]) else (Inl SendMailError, [m])))"


section \<open>Requests and responses\<close>

text \<open>
  A value of \<^verbatim>\<open>req.query\<close>: a string, or an array or object when the query
  string nests (\<^verbatim>\<open>?token[]=x\<close>). \<open>None\<close> is \<^verbatim>\<open>undefined\<close>, and as
  the value of \<^verbatim>\<open>token\<close> in \<^verbatim>\<open>requireAdmin\<close> also \<^verbatim>\<open>null\<close>.
\<close>

datatype query_value = QString jsstring | QNested

text \<open>
  What the admin routes read of a request: \<^verbatim>\<open>req.query.token\<close>,
  \<^verbatim>\<open>req.headers.authorization\<close>, and \<open>query_id\<close>, the number that
  \<^verbatim>\<open>Number(req.query.id)\<close> evaluates to (NaN for a missing or non-numeric
  parameter, 0 for an empty one).
\<close>

record admin_request =
  query_token :: "query_value option"
  authorization :: "jsstring option"
  query_id :: js_number

text \<open>
  The fields \<^verbatim>\<open>req.body?.name\<close> and \<^verbatim>\<open>req.body?.message\<close>, as
  \<open>cleanText\<close> takes them.
\<close>

record submit_body =
  body_name :: js_value
  body_message :: js_value

text \<open>
  What \<^verbatim>\<open>express.json({ limit: "50kb" })\<close> reads of a POST request: whether the
  content type is JSON, the length of the body in bytes, and the fields of the parsed
  body (\<open>None\<close>: the body is not JSON text of an object or array).
\<close>

record post_request =
  json_content_type :: bool
  body_length :: nat
  json_body :: "submit_body option"

text \<open>
  A response is a status code and a body. \<open>ErrorPage\<close> is the page of Express's
  error handler, which answers an error of a middleware with the status of the error,
  and an exception of a route with status 500.
\<close>

datatype body =
  JsonRows "public_row list"
| JsonPending "entry list"
| JsonOk int
| JsonError jsstring
| Text jsstring
| ErrorPage

type_synonym response = "nat \<times> body"

text \<open>ToBoolean on \<^verbatim>\<open>req.query.token\<close>\<close>

fun truthy_query :: "query_value option \<Rightarrow> bool" where
  "truthy_query None = False"
| "truthy_query (Some (QString s)) = (s \<noteq> [])"
| "truthy_query (Some QNested) = True"

text \<open>
  \<^verbatim>\<open>req.headers.authorization && req.headers.authorization.startsWith("Bearer ")
  ? req.headers.authorization.slice(7) : null\<close>
\<close>

definition bearer :: "jsstring option \<Rightarrow> query_value option" where
  "bearer h =
     (case h of
        None \<Rightarrow> None
      | Some a \<Rightarrow> if a \<noteq> [] \<and> take 7 a = utf16 ''Bearer '' then Some (QString (drop 7 a)) else None)"

text \<open>The constant \<^verbatim>\<open>token\<close> of \<^verbatim>\<open>requireAdmin\<close>.\<close>

definition presented_token :: "admin_request \<Rightarrow> query_value option" where
  "presented_token req =
     (if truthy_query (query_token req) then query_token req else bearer (authorization req))"

text \<open>
  \<^verbatim>\<open>function requireAdmin(req, res, next)\<close>: \<open>True\<close> when it calls
  \<^verbatim>\<open>next()\<close>, \<open>False\<close> when it answers 401 (\<^verbatim>\<open>token !== ADMIN_TOKEN\<close>).
\<close>

definition requireAdmin :: "config \<Rightarrow> admin_request \<Rightarrow> bool" where
  "requireAdmin cfg req = (presented_token req = Some (QString (ADMIN_TOKEN cfg)))"

definition unauthorized :: response where
  "unauthorized = (401, Text (utf16 ''Unauthorized''))"

definition missing_id :: response where
  "missing_id = (400, Text (utf16 ''Missing id''))"

definition approved_text :: jsstring where
  "approved_text = concat
     [[0x2705], utf16 '' Freigegeben. Du kannst das Fenster schlie'', [0x00DF], utf16 ''en.'']"

definition rejected_text :: jsstring where
  "rejected_text = concat
     [[0xD83D, 0xDDD1, 0xFE0F], utf16 '' Abgelehnt. Du kannst das Fenster schlie'', [0x00DF],
      utf16 ''en.'']"


section \<open>The routes\<close>

text \<open>
  \<^verbatim>\<open>app.use(express.json({ limit: "50kb" }))\<close>: a request of another content
  type is passed on unread, with no field in \<^verbatim>\<open>req.body\<close>; a body of more than
  \<open>50 \<times> 1024\<close> bytes is refused with status 413, and one that does not parse with
  status 400 (\<open>Inl\<close> the status); otherwise \<^verbatim>\<open>req.body\<close> is the parsed body.
\<close>

definition express_json :: "post_request \<Rightarrow> nat + submit_body" where
  "express_json rq =
     (if \<not> json_content_type rq then Inr \<lparr>body_name = Falsy, body_message = Falsy\<rparr>
      else if 51200 < body_length rq then Inl 413
      else case json_body rq of None \<Rightarrow> Inl 400 | Some b \<Rightarrow> Inr b)"

text \<open>\<^verbatim>\<open>app.get("/api/entries", ...)\<close>\<close>

definition get_api_entries :: "store \<Rightarrow> response \<times> store" where
  "get_api_entries db = ((200, JsonRows (stmtApproved db)), db)"

text \<open>
  \<^verbatim>\<open>app.post("/api/entries", ...)\<close> on the parsed body. Beside the response and
  the database, the result records the mails handed to the transport and the line the
  handler logs after the \<^verbatim>\<open>try\<close> block. \<open>unchanged r db\<close> is the result of a
  request answered \<open>r\<close> before anything is written or sent.
\<close>

datatype log_line = LogMailSent int | LogMailError js_error

record submit_result =
  response :: response
  db_after :: store
  outbox :: "mail list"
  console :: "log_line list"

definition unchanged :: "response \<Rightarrow> store \<Rightarrow> submit_result" where
  "unchanged r db = \<lparr>response = r, db_after = db, outbox = [], console = []\<rparr>"

definition post_api_entries :: "config \<Rightarrow> env \<Rightarrow> submit_body \<Rightarrow> store \<Rightarrow> submit_result" where
  "post_api_entries cfg ev b db =
     (case cleanText (body_name b) 40 of
        Inl e \<Rightarrow> unchanged (500, ErrorPage) db
      | Inr n \<Rightarrow>
     (case cleanText (body_message b) 400 of
        Inl e \<Rightarrow> unchanged (500, ErrorPage) db
      | Inr m \<Rightarrow>
          if n = [] \<or> m = []
          then unchanged (400, JsonError (utf16 ''Name und Nachricht sind Pflicht.'')) db
          else
            (let c = nowIso ev;
                 (rowid, db') = stmtInsert db n m c;
                 created = \<lparr>id' = rowid, name = n, message = m, created_at = c\<rparr>;
                 (r, ms) = sendModerationMail cfg ev created
             in \<lparr>response = (200, JsonOk rowid), db_after = db', outbox = ms,
                 console = [case r of Inr _ \<Rightarrow> LogMailSent rowid | Inl e \<Rightarrow> LogMailError e]\<rparr>)))"

text \<open>
  A request \<^verbatim>\<open>POST /api/entries\<close>: the middleware, then the route if the
  middleware passes the request on.
\<close>

definition submit_entry :: "config \<Rightarrow> env \<Rightarrow> post_request \<Rightarrow> store \<Rightarrow> submit_result" where
  "submit_entry cfg ev rq db =
     (case express_json rq of
        Inl code \<Rightarrow> unchanged (code, ErrorPage) db
      | Inr b \<Rightarrow> post_api_entries cfg ev b db)"

text \<open>\<^verbatim>\<open>app.get("/admin/pending", requireAdmin, ...)\<close>\<close>

definition get_admin_pending :: "config \<Rightarrow> admin_request \<Rightarrow> store \<Rightarrow> response \<times> store" where
  "get_admin_pending cfg req db =
     (if \<not> requireAdmin cfg req then (unauthorized, db)
      else ((200, JsonPending (stmtPending db)), db))"

text \<open>\<^verbatim>\<open>app.get("/admin/approve", requireAdmin, ...)\<close>\<close>

definition get_admin_approve :: "config \<Rightarrow> admin_request \<Rightarrow> store \<Rightarrow> response \<times> store" where
  "get_admin_approve cfg req db =
     (if \<not> requireAdmin cfg req then (unauthorized, db)
      else if \<not> truthy_number (query_id req) then (missing_id, db)
      else ((200, Text approved_text), snd (stmtSetStatus db (query_id req) approved)))"

text \<open>\<^verbatim>\<open>app.get("/admin/reject", requireAdmin, ...)\<close>\<close>

definition get_admin_reject :: "config \<Rightarrow> admin_request \<Rightarrow> store \<Rightarrow> response \<times> store" where
  "get_admin_reject cfg req db =
     (if \<not> requireAdmin cfg req then (unauthorized, db)
      else if \<not> truthy_number (query_id req) then (missing_id, db)
      else ((200, Text rejected_text), snd (stmtSetStatus db (query_id req) rejected)))"

text \<open>
  The states of the database that the server can reach: it starts with the empty table
  and changes only through the five routes.
\<close>

datatype request =
  GetEntries
| PostEntries env post_request
| GetPending admin_request
| GetApprove admin_request
| GetReject admin_request

fun serve :: "config \<Rightarrow> request \<Rightarrow> store \<Rightarrow> store" where
  "serve cfg GetEntries db = snd (get_api_entries db)"
| "serve cfg (PostEntries ev rq) db = db_after (submit_entry cfg ev rq db)"
| "serve cfg (GetPending req) db = snd (get_admin_pending cfg req db)"
| "serve cfg (GetApprove req) db = snd (get_admin_approve cfg req db)"
| "serve cfg (GetReject req) db = snd (get_admin_reject cfg req db)"

inductive reachable :: "config \<Rightarrow> store \<Rightarrow> bool" for cfg :: config where
  start: "reachable cfg empty_db"
| request: "reachable cfg db \<Longrightarrow> reachable cfg (serve cfg rq db)"


section \<open>The specification's normalisation and entities\<close>

text \<open>
  The normalisation as the specification words it: trim, collapse every white-space run
  to one space, truncate. \<open>squeeze prev s\<close> drops a white-space character that follows
  another one (\<open>prev\<close>: the character before \<open>s\<close> was white space) and turns the
  first of a run into a space.
\<close>

fun squeeze :: "bool \<Rightarrow> jsstring \<Rightarrow> jsstring" where
  "squeeze prev [] = []"
| "squeeze prev (c # cs) =
     (if isWhiteSpace c then (if prev then squeeze True cs else 0x0020 # squeeze True cs)
      else c # squeeze False cs)"

definition normalize_spec :: "nat \<Rightarrow> jsstring \<Rightarrow> jsstring" where
  "normalize_spec maxLen s = take maxLen (squeeze False (trim s))"

definition entities :: "jsstring list" where
  "entities = [utf16 ''&amp;'', utf16 ''&lt;'', utf16 ''&gt;'', utf16 ''&quot;'', utf16 ''&#039;'']"

definition begins_entity :: "jsstring \<Rightarrow> bool" where
  "begins_entity t = list_ex (\<lambda>e. take (length e) t = e) entities"

definition markup_chars :: "code_unit set" where
  "markup_chars = {cu CHR ''<'', cu CHR ''>'', cu CHR 0x22, cu CHR 0x27}"

text \<open>Every ampersand of a string begins an entity.\<close>

fun amps_ok :: "jsstring \<Rightarrow> bool" where
  "amps_ok [] = True"
| "amps_ok (c # cs) = ((if c = cu CHR ''&'' then begins_entity (c # cs) else True) \<and> amps_ok cs)"

text \<open>The single pass that the five replacements of \<open>escapeHtml\<close> amount to.\<close>

definition escapeChar :: "code_unit \<Rightarrow> jsstring" where
  "escapeChar c =
     (if c = cu CHR ''&'' then utf16 ''&amp;''
      else if c = cu CHR ''<'' then utf16 ''&lt;''
      else if c = cu CHR ''>'' then utf16 ''&gt;''
      else if c = cu CHR 0x22 then utf16 ''&quot;''
      else if c = cu CHR 0x27 then utf16 ''&#039;''
      else [c])"

text \<open>An unset, empty or white-space-only variable of the environment.\<close>

definition blank :: "jsstring option \<Rightarrow> bool" where
  "blank v = (case v of None \<Rightarrow> True | Some s \<Rightarrow> list_all isWhiteSpace s)"

text \<open>
  A field of the body with a string form that is empty or white space only, and one
  with a string form that holds another character.
\<close>

definition blank_field :: "js_value \<Rightarrow> bool" where
  "blank_field v =
     (case v of Falsy \<Rightarrow> True | Stringable s \<Rightarrow> list_all isWhiteSpace s | Unstringable \<Rightarrow> False)"

definition filled_field :: "js_value \<Rightarrow> bool" where
  "filled_field v =
     (case v of
        Falsy \<Rightarrow> False
      | Stringable s \<Rightarrow> list_ex (\<lambda>c. \<not> isWhiteSpace c) s
      | Unstringable \<Rightarrow> False)"

text \<open>A string without an unpaired surrogate.\<close>

fun well_formed :: "jsstring \<Rightarrow> bool" where
  "well_formed [] = True"
| "well_formed [c] = (\<not> isHighSurrogate c \<and> \<not> isLowSurrogate c)"
| "well_formed (c # d # cs) =
     (if isHighSurrogate c then isLowSurrogate d \<and> well_formed cs
      else \<not> isLowSurrogate c \<and> well_formed (d # cs))"

text \<open>The projection of a row to the columns of the public listing.\<close>

definition public_fields :: "entry \<Rightarrow> public_row" where
  "public_fields e = \<lparr>id' = id' e, name = name e, message = message e, created_at = created_at e\<rparr>"

text \<open>
  The invariant of the reachable databases: the key is unique, every id is positive,
  and the counter is not negative.
\<close>

definition wf_db :: "store \<Rightarrow> bool" where
  "wf_db db = (distinct (map id' (entries db)) \<and> list_all (\<lambda>e. 0 < id' e) (entries db) \<and> 0 \<le> seq db)"


section \<open>Example inputs\<close>

text \<open>A name of 41 characters whose 40th character is a space.\<close>

definition long_name :: jsstring where
  "long_name = replicate 39 (cu CHR ''a'') @ utf16 '' b''"

text \<open>A configuration without SMTP settings, and one with them.\<close>

definition example_config :: config where
  "example_config =
     \<lparr>PUBLIC_BASE_URL = utf16 ''http://localhost:3000'', ADMIN_TOKEN = utf16 ''s3cret'',
      MAIL_TO = utf16 ''info@example.org'', MAIL_FROM = utf16 ''noreply@example.org'',
      SMTP_HOST = None, SMTP_USER = None, SMTP_PASS = None\<rparr>"

definition smtp_config :: config where
  "smtp_config =
     \<lparr>PUBLIC_BASE_URL = utf16 ''http://localhost:3000'', ADMIN_TOKEN = utf16 ''s3cret'',
      MAIL_TO = utf16 ''info@example.org'', MAIL_FROM = utf16 ''noreply@example.org'',
      SMTP_HOST = Some (utf16 ''smtp.example.org''), SMTP_USER = Some (utf16 ''user''),
      SMTP_PASS = Some (utf16 ''pass'')\<rparr>"

text \<open>An outside world whose mail transport rejects every mail.\<close>

definition example_env :: env where
  "example_env =
     \<lparr>nowIso = utf16 ''2024-01-01T00:00:00.000Z'', sendMail = (\<lambda>m. False),
      encodeURIComponent = (\<lambda>s. Some s)\<rparr>"

text \<open>An entry whose name and message hold markup.\<close>

definition markup_row :: public_row where
  "markup_row =
     \<lparr>id' = 1, name = utf16 ''&<b>'', message = utf16 ''Tom & Jerry'',
      created_at = utf16 ''2024-01-01T00:00:00.000Z''\<rparr>"

text \<open>The body of a submission with a name and a message.\<close>

definition bob_body :: submit_body where
  "bob_body = \<lparr>body_name = Stringable (utf16 ''Bob''), body_message = Stringable (utf16 ''hi'')\<rparr>"

text \<open>A JSON request of 40 bytes with the given name and message.\<close>

definition json_request :: "js_value \<Rightarrow> js_value \<Rightarrow> post_request" where
  "json_request n m =
     \<lparr>json_content_type = True, body_length = 40,
      json_body = Some \<lparr>body_name = n, body_message = m\<rparr>\<rparr>"

text \<open>A name of 39 letters and an emoji, which is a surrogate pair.\<close>

definition emoji_name :: jsstring where
  "emoji_name = replicate 39 (cu CHR ''a'') @ [0xD83D, 0xDE00]"

text \<open>
  Admin requests: \<^verbatim>\<open>?id=q&token=s3cret\<close>; a wrong token in the query with the
  right one in the header; the right token in the header only; no token at all.
\<close>

definition admin_query :: "rat \<Rightarrow> admin_request" where
  "admin_query q =
     \<lparr>query_token = Some (QString (utf16 ''s3cret'')), authorization = None, query_id = Finite q\<rparr>"




text \<open>
  A database with two approved entries, a pending and a rejected one, and the requests
  that lead to it from the empty database: four submissions, two approvals, a rejection.
\<close>

definition example_db :: store where
  "example_db =
     \<lparr>entries =
        [\<lparr>id' = 1, name = utf16 ''A B'', message = utf16 ''Hello world'',
          created_at = utf16 ''2024-01-01T00:00:00.000Z'', status = approved\<rparr>,
         \<lparr>id' = 2, name = utf16 ''C'', message = utf16 ''second'',
          created_at = utf16 ''2024-01-01T00:00:00.000Z'', status = pending\<rparr>,
         \<lparr>id' = 3, name = utf16 ''D'', message = utf16 ''third'',
          created_at = utf16 ''2024-01-01T00:00:00.000Z'', status = approved\<rparr>,
         \<lparr>id' = 4, name = utf16 ''E'', message = utf16 ''fourth'',
          created_at = utf16 ''2024-01-01T00:00:00.000Z'', status = rejected\<rparr>],
      seq = 4\<rparr>"

definition example_requests :: "request list" where
  "example_requests =
     [PostEntries example_env
        (json_request (Stringable (utf16 ''  A   B  '')) (Stringable (utf16 ''Hello   world''))),
      PostEntries example_env (json_request (Stringable (utf16 ''C'')) (Stringable (utf16 ''second''))),
      PostEntries example_env (json_request (Stringable (utf16 ''D'')) (Stringable (utf16 ''third''))),
      PostEntries example_env (json_request (Stringable (utf16 ''E'')) (Stringable (utf16 ''fourth''))),
      GetApprove (admin_query 1),
      GetApprove (admin_query 3),
      GetReject (admin_query 4)]"


section \<open>Text normalisation\<close>

lemma squeeze_True_dropWhile: "squeeze True cs = squeeze False (dropWhile isWhiteSpace cs)"
  by (induction cs) auto

lemma replace_ws_runs_squeeze: "replace_ws_runs s = squeeze False s"
  by (induction s rule: replace_ws_runs.induct) (auto simp: squeeze_True_dropWhile)

lemma cleanText_normalize_spec: "cleanText (Stringable s) n = Inr (normalize_spec n s)"
  by (simp add: cleanText_def normalize_spec_def replace_ws_runs_squeeze Let_def)

lemma replace_ws_runs_Nil_iff: "replace_ws_runs s = [] \<longleftrightarrow> s = []"
  by (cases s) auto

lemma trim_Nil_iff: "trim s = [] \<longleftrightarrow> list_all isWhiteSpace s"
proof
  assume "trim s = []"
  then have a: "\<forall>x\<in>set (dropWhile isWhiteSpace s). isWhiteSpace x"
    by (simp add: trim_def)
  have "dropWhile isWhiteSpace s = []"
  proof (rule ccontr)
    assume n: "dropWhile isWhiteSpace s \<noteq> []"
    then have "\<not> isWhiteSpace (hd (dropWhile isWhiteSpace s))" by (rule hd_dropWhile)
    moreover have "hd (dropWhile isWhiteSpace s) \<in> set (dropWhile isWhiteSpace s)"
      using n by simp
    ultimately show False using a by blast
  qed
  then show "list_all isWhiteSpace s" by (simp add: list_all_iff)
next
  assume "list_all isWhiteSpace s"
  then have d: "dropWhile isWhiteSpace s = []" by (simp add: list_all_iff)
  show "trim s = []" by (simp only: trim_def d rev.simps dropWhile.simps)
qed

lemma normalize_spec_Nil_iff: "0 < n \<Longrightarrow> normalize_spec n s = [] \<longleftrightarrow> list_all isWhiteSpace s"
  by (simp add: normalize_spec_def replace_ws_runs_squeeze[symmetric] replace_ws_runs_Nil_iff
      trim_Nil_iff)

lemma cleanText_Nil_iff: "0 < n \<Longrightarrow> cleanText v n = Inr [] \<longleftrightarrow> blank_field v"
proof (cases v)
  case Falsy
  then show ?thesis by (simp add: cleanText_def blank_field_def trim_def)
next
  case (Stringable s)
  assume "0 < n"
  then show ?thesis
    using Stringable by (simp add: cleanText_normalize_spec normalize_spec_Nil_iff blank_field_def)
next
  case Unstringable
  then show ?thesis by (simp add: cleanText_def blank_field_def)
qed

lemma list_ex_not_iff: "list_ex (\<lambda>c. \<not> P c) s \<longleftrightarrow> \<not> list_all P s"
  by (simp add: list_ex_iff list_all_iff)

lemma cleanText_filled_iff:
  "0 < n \<Longrightarrow> filled_field v \<longleftrightarrow> (\<exists>t. cleanText v n = Inr t \<and> t \<noteq> [])"
proof (cases v)
  case Falsy
  then show ?thesis by (simp add: cleanText_def filled_field_def trim_def)
next
  case (Stringable s)
  assume "0 < n"
  then show ?thesis
    using Stringable
    by (simp add: cleanText_normalize_spec normalize_spec_Nil_iff filled_field_def list_ex_not_iff)
next
  case Unstringable
  then show ?thesis by (simp add: cleanText_def filled_field_def)
qed

lemma cleanText_throws_iff: "cleanText v n = Inl e \<longleftrightarrow> v = Unstringable \<and> e = TypeError"
  by (cases v) (auto simp: cleanText_def Let_def)

lemma field_cases: "blank_field v \<or> filled_field v \<or> v = Unstringable"
  by (cases v) (simp_all add: blank_field_def filled_field_def list_ex_not_iff)

subsection \<open>Text as the database holds it\<close>

lemma length_sqlite_text: "length (sqlite_text s) = length s"
  by (induction s rule: sqlite_text.induct) simp_all

lemma sqlite_text_well_formed: "well_formed s \<Longrightarrow> sqlite_text s = s"
  by (induction s rule: sqlite_text.induct) (auto split: if_splits)

lemma well_formed_no_surrogate:
  "list_all (\<lambda>c. \<not> isHighSurrogate c \<and> \<not> isLowSurrogate c) s \<Longrightarrow> well_formed s"
  by (induction s rule: well_formed.induct) simp_all

lemma not_surrogate_facts:
  "\<not> isHighSurrogate (cu CHR ''a'')" "\<not> isLowSurrogate (cu CHR ''a'')"
  "\<not> isHighSurrogate 0x20" "\<not> isLowSurrogate 0x20"
  "isHighSurrogate 0xD83D" "\<not> isLowSurrogate 0xD83D" "isLowSurrogate 0xDE00"
  by (simp_all add: isHighSurrogate_def isLowSurrogate_def cu_def)

lemma sqlite_text_replicate:
  "\<not> isHighSurrogate a \<Longrightarrow> \<not> isLowSurrogate a \<Longrightarrow>
     sqlite_text (replicate k a @ t) = replicate k a @ sqlite_text t"
proof (induction k)
  case 0
  show ?case by simp
next
  case (Suc k)
  then show ?case by (cases "replicate k a @ t") simp_all
qed

lemma trim_keep:
  assumes "s \<noteq> []" "\<not> isWhiteSpace (hd s)" "\<not> isWhiteSpace (last s)"
  shows "trim s = s"
proof -
  from assms obtain c cs where s: "s = c # cs" by (cases s) auto
  with assms have 1: "dropWhile isWhiteSpace s = s" by simp
  from assms have "rev s \<noteq> []" "\<not> isWhiteSpace (hd (rev s))" by (simp_all add: hd_rev)
  then have 2: "dropWhile isWhiteSpace (rev s) = rev s" by (cases "rev s") auto
  show ?thesis by (simp only: trim_def 1 2 rev_rev_ident)
qed

lemma trim_snoc_ws: "isWhiteSpace c \<Longrightarrow> trim (s @ [c]) = trim s"
proof (cases "list_all isWhiteSpace s")
  case True
  assume "isWhiteSpace c"
  with True have "list_all isWhiteSpace (s @ [c])" by simp
  with True show ?thesis by (simp only: trim_Nil_iff[symmetric])
next
  case False
  assume c: "isWhiteSpace c"
  from False have "dropWhile isWhiteSpace s \<noteq> []" by (simp add: list_all_iff)
  then have "dropWhile isWhiteSpace (s @ [c]) = dropWhile isWhiteSpace s @ [c]"
    by (metis dropWhile_append1 dropWhile_eq_Nil_conv)
  with c show ?thesis by (simp add: trim_def)
qed

lemma replace_ws_runs_replicate:
  "\<not> isWhiteSpace a \<Longrightarrow> replace_ws_runs (replicate k a @ t) = replicate k a @ replace_ws_runs t"
  by (induction k) auto

lemma ws_facts:
  "isWhiteSpace 0x20" "\<not> isWhiteSpace (cu CHR ''a'')" "\<not> isWhiteSpace (cu CHR ''b'')"
  by (simp_all add: isWhiteSpace_def cu_def)

lemma cleanText_long_name:
  "cleanText (Stringable long_name) 40 = Inr (replicate 39 (cu CHR ''a'') @ [0x20])"
proof -
  have "trim long_name = long_name"
    by (rule trim_keep) (simp_all add: long_name_def utf16_def ws_facts hd_append)
  moreover have "replace_ws_runs long_name = long_name"
    by (simp add: long_name_def utf16_def replace_ws_runs_replicate ws_facts)
       (simp add: cu_def)
  moreover have "long_name \<noteq> []" by (simp add: long_name_def)
  ultimately show ?thesis
    by (simp add: cleanText_def) (simp add: long_name_def utf16_def cu_def)
qed

lemma cleanText_twice_long_name:
  "cleanText (Stringable (replicate 39 (cu CHR ''a'') @ [0x20])) 40 = Inr (replicate 39 (cu CHR ''a''))"
proof -
  let ?r = "replicate 39 (cu CHR ''a'')"
  have "trim (?r @ [0x20]) = trim ?r" by (rule trim_snoc_ws) (rule ws_facts)
  also have "\<dots> = ?r" by (rule trim_keep) (simp_all add: ws_facts)
  finally have t: "trim (?r @ [0x20]) = ?r" .
  have r: "replace_ws_runs ?r = ?r"
    using replace_ws_runs_replicate[of "cu CHR ''a''" 39 "[]"] by (simp add: ws_facts)
  show ?thesis by (simp add: cleanText_def t r)
qed

text \<open>
  C10: \<open>cleanText\<close> is not idempotent. The slice comes after the trim, so a stored
  value can end in white space: \<open>long_name\<close> is cleaned to a string with a final
  space, which the database holds as it is, and cleaning that string again removes the
  space.
\<close>

theorem cleanText_not_idempotent:
  "\<exists>s t u. cleanText (Stringable s) 40 = Inr t
     \<and> t \<noteq> [] \<and> isWhiteSpace (last t) \<and> sqlite_text t = t
     \<and> cleanText (Stringable t) 40 = Inr u \<and> u \<noteq> t"
proof (intro exI conjI)
  let ?t = "replicate 39 (cu CHR ''a'') @ [0x20]"
  show "cleanText (Stringable long_name) 40 = Inr ?t" by (rule cleanText_long_name)
  show "?t \<noteq> []" by simp
  show "isWhiteSpace (last ?t)" by (simp add: ws_facts)
  show "sqlite_text ?t = ?t"
    by (simp add: sqlite_text_replicate not_surrogate_facts)
  show "cleanText (Stringable ?t) 40 = Inr (replicate 39 (cu CHR ''a''))"
    by (rule cleanText_twice_long_name)
  show "replicate 39 (cu CHR ''a'') \<noteq> ?t" by simp
qed

section \<open>Submission\<close>

lemma submit_entry_refused:
  "express_json rq = Inl code \<Longrightarrow> submit_entry cfg ev rq db = unchanged (code, ErrorPage) db"
  by (simp add: submit_entry_def)

lemma submit_entry_passed:
  "express_json rq = Inr b \<Longrightarrow> submit_entry cfg ev rq db = post_api_entries cfg ev b db"
  by (simp add: submit_entry_def)

lemma post_api_entries_throws:
  assumes "body_name b = Unstringable \<or> body_message b = Unstringable"
  shows "post_api_entries cfg ev b db = unchanged (500, ErrorPage) db"
proof (cases "cleanText (body_name b) 40")
  case (Inl e)
  then show ?thesis by (simp add: post_api_entries_def)
next
  case (Inr n)
  then have "body_name b \<noteq> Unstringable" by (auto simp: cleanText_def)
  with assms have "cleanText (body_message b) 400 = Inl TypeError" by (simp add: cleanText_def)
  with Inr show ?thesis by (simp add: post_api_entries_def)
qed

lemma post_api_entries_reject:
  assumes "body_name b \<noteq> Unstringable" and "body_message b \<noteq> Unstringable"
    and "blank_field (body_name b) \<or> blank_field (body_message b)"
  shows "post_api_entries cfg ev b db =
           unchanged (400, JsonError (utf16 ''Name und Nachricht sind Pflicht.'')) db"
proof -
  obtain n where n: "cleanText (body_name b) 40 = Inr n"
    using assms(1) cleanText_throws_iff[of "body_name b" 40] by (cases "cleanText (body_name b) 40") auto
  obtain m where m: "cleanText (body_message b) 400 = Inr m"
    using assms(2) cleanText_throws_iff[of "body_message b" 400]
    by (cases "cleanText (body_message b) 400") auto
  from assms(3) n m have "n = [] \<or> m = []"
    using cleanText_Nil_iff[of 40 "body_name b"] cleanText_Nil_iff[of 400 "body_message b"] by auto
  with n m show ?thesis by (auto simp add: post_api_entries_def)
qed

lemma post_api_entries_accept:
  assumes "cleanText (body_name b) 40 = Inr n" and "cleanText (body_message b) 400 = Inr m"
    and "n \<noteq> []" and "m \<noteq> []"
  shows "response (post_api_entries cfg ev b db) = (200, JsonOk (fst (stmtInsert db n m (nowIso ev))))"
    and "db_after (post_api_entries cfg ev b db) = snd (stmtInsert db n m (nowIso ev))"
    and "outbox (post_api_entries cfg ev b db) =
           snd (sendModerationMail cfg ev
             \<lparr>id' = fst (stmtInsert db n m (nowIso ev)), name = n, message = m,
              created_at = nowIso ev\<rparr>)"
    and "console (post_api_entries cfg ev b db) =
           [case fst (sendModerationMail cfg ev
                   \<lparr>id' = fst (stmtInsert db n m (nowIso ev)), name = n, message = m,
                    created_at = nowIso ev\<rparr>) of
              Inr _ \<Rightarrow> LogMailSent (fst (stmtInsert db n m (nowIso ev)))
            | Inl e \<Rightarrow> LogMailError e]"
  using assms by (simp_all add: post_api_entries_def Let_def split_beta)

lemma entries_stmtInsert:
  "entries (snd (stmtInsert db n m c)) =
     entries db @
       [\<lparr>id' = fst (stmtInsert db n m c), name = sqlite_text n, message = sqlite_text m,
         created_at = sqlite_text c, status = pending\<rparr>]"
  by (simp add: stmtInsert_def Let_def)

lemma fold_max_ge: "(a::int) \<le> fold max xs a"
proof (induction xs arbitrary: a)
  case Nil
  show ?case by simp
next
  case (Cons x xs)
  have "a \<le> max x a" by simp
  also have "\<dots> \<le> fold max xs (max x a)" by (rule Cons.IH)
  finally show ?case by simp
qed

lemma fold_max_ge_elem: "x \<in> set xs \<Longrightarrow> (x::int) \<le> fold max xs a"
proof (induction xs arbitrary: a)
  case Nil
  then show ?case by simp
next
  case (Cons y ys)
  show ?case
  proof (cases "x = y")
    case True
    have "x \<le> max y a" using True by simp
    also have "\<dots> \<le> fold max ys (max y a)" by (rule fold_max_ge)
    finally show ?thesis by simp
  next
    case False
    with Cons.prems have "x \<in> set ys" by simp
    then show ?thesis using Cons.IH by simp
  qed
qed

lemma stmtInsert_fresh: "e \<in> set (entries db) \<Longrightarrow> id' e < fst (stmtInsert db n m c)"
  using fold_max_ge_elem[of "id' e" "map id' (entries db)" "seq db"]
  by (simp add: stmtInsert_def Let_def)

lemma stmtInsert_above_seq: "seq db < fst (stmtInsert db n m c)"
  using fold_max_ge[of "seq db" "map id' (entries db)"]
  by (simp add: stmtInsert_def Let_def)

lemma seq_stmtInsert: "seq (snd (stmtInsert db n m c)) = fst (stmtInsert db n m c)"
  by (simp add: stmtInsert_def Let_def)

lemma normalize_spec_examples:
  "normalize_spec 40 (utf16 ''  A   B  '') = utf16 ''A B''"
  "normalize_spec 400 (utf16 ''Hello   world'') = utf16 ''Hello world''"
  by (simp_all add: normalize_spec_def trim_def utf16_def cu_def isWhiteSpace_def)

lemma sqlite_text_examples:
  "sqlite_text (utf16 ''A B'') = utf16 ''A B''"
  "sqlite_text (utf16 ''Hello world'') = utf16 ''Hello world''"
  by (simp_all add: utf16_def cu_def isHighSurrogate_def isLowSurrogate_def)

lemma express_json_json_request:
  "express_json (json_request n m) = Inr \<lparr>body_name = n, body_message = m\<rparr>"
  by (simp add: express_json_def json_request_def)

lemma normalize_spec_emoji_name:
  "normalize_spec 40 emoji_name = replicate 39 (cu CHR ''a'') @ [0xD83D]"
proof -
  have ws: "\<not> isWhiteSpace 0xD83D" "\<not> isWhiteSpace 0xDE00" by (simp_all add: isWhiteSpace_def)
  have "trim emoji_name = emoji_name"
    by (rule trim_keep) (simp_all add: emoji_name_def ws ws_facts hd_append)
  moreover have "replace_ws_runs emoji_name = emoji_name"
    by (simp add: emoji_name_def replace_ws_runs_replicate ws ws_facts)
  ultimately show ?thesis
    by (simp add: normalize_spec_def replace_ws_runs_squeeze[symmetric]) (simp add: emoji_name_def)
qed

lemma sqlite_text_cut_emoji:
  "sqlite_text (replicate 39 (cu CHR ''a'') @ [0xD83D]) = replicate 39 (cu CHR ''a'') @ [0xFFFD]"
  by (simp add: sqlite_text_replicate not_surrogate_facts)

lemma hasSmtp_example_config: "\<not> hasSmtp example_config"
  by (simp add: hasSmtp_def env_set_def example_config_def trim_def)

text \<open>
  The name of 39 letters and an emoji: the slice at 40 code units cuts the surrogate
  pair, and the database holds U+FFFD in place of the high surrogate that is left.
\<close>

theorem stored_text_surrogate_counterexample:
  "normalize_spec 40 emoji_name = replicate 39 (cu CHR ''a'') @ [0xD83D]
   \<and> response (submit_entry example_config example_env
        (json_request (Stringable emoji_name) (Stringable (utf16 ''hi''))) empty_db) = (200, JsonOk 1)
   \<and> map name (entries (db_after (submit_entry example_config example_env
        (json_request (Stringable emoji_name) (Stringable (utf16 ''hi''))) empty_db)))
       = [replicate 39 (cu CHR ''a'') @ [0xFFFD]]"
proof -
  let ?b = "\<lparr>body_name = Stringable emoji_name, body_message = Stringable (utf16 ''hi'')\<rparr>"
  let ?n = "replicate 39 (cu CHR ''a'') @ [0xD83D]"
  have n: "cleanText (body_name ?b) 40 = Inr ?n"
    by (simp add: cleanText_normalize_spec normalize_spec_emoji_name)
  have m: "cleanText (body_message ?b) 400 = Inr (utf16 ''hi'')"
    by (simp add: cleanText_def trim_def utf16_def cu_def isWhiteSpace_def)
  have ne: "?n \<noteq> []" "utf16 ''hi'' \<noteq> []" by (simp_all add: utf16_def)
  have s: "submit_entry example_config example_env
        (json_request (Stringable emoji_name) (Stringable (utf16 ''hi''))) empty_db
        = post_api_entries example_config example_env ?b empty_db"
    by (rule submit_entry_passed) (rule express_json_json_request)
  have i: "fst (stmtInsert empty_db x y z) = 1" for x y z
    by (simp add: stmtInsert_def empty_db_def)
  have r: "response (post_api_entries example_config example_env ?b empty_db) = (200, JsonOk 1)"
    using post_api_entries_accept(1)[OF n m ne] by (simp only: i)
  have "entries (db_after (post_api_entries example_config example_env ?b empty_db))
          = entries (snd (stmtInsert empty_db ?n (utf16 ''hi'') (nowIso example_env)))"
    by (simp only: post_api_entries_accept(2)[OF n m ne])
  then have "map name (entries (db_after (post_api_entries example_config example_env ?b empty_db)))
          = [sqlite_text ?n]"
    by (simp add: entries_stmtInsert empty_db_def)
  then show ?thesis by (simp only: s r normalize_spec_emoji_name sqlite_text_cut_emoji)
qed

text \<open>
  C5, amended: the stored name and message are the submitted strings trimmed, with every
  white-space run collapsed to one space, cut to 40 and 400 UTF-16 code units, and with
  every unpaired surrogate replaced by U+FFFD, which leaves the length as it is and a
  string without unpaired surrogates unchanged. A name of more than 40 code units after
  normalisation is stored with exactly 40.
\<close>

theorem stored_text_is_normalized:
  "cleanText (Stringable s) k = Inr (normalize_spec k s)
    \<and> (express_json rq = Inr \<lparr>body_name = Stringable n, body_message = Stringable m\<rparr>
        \<and> fst (response (submit_entry cfg ev rq db)) = 200 \<longrightarrow>
         (\<exists>i. entries (db_after (submit_entry cfg ev rq db)) = entries db @
                 [\<lparr>id' = i, name = sqlite_text (normalize_spec 40 n),
                   message = sqlite_text (normalize_spec 400 m),
                   created_at = sqlite_text (nowIso ev), status = pending\<rparr>]))
    \<and> length (sqlite_text t) = length t
    \<and> (well_formed t \<longrightarrow> sqlite_text t = t)
    \<and> (40 < length (squeeze False (trim n)) \<longrightarrow> length (sqlite_text (normalize_spec 40 n)) = 40)
    \<and> sqlite_text (normalize_spec 40 (utf16 ''  A   B  '')) = utf16 ''A B''
    \<and> sqlite_text (normalize_spec 400 (utf16 ''Hello   world'')) = utf16 ''Hello world''"
proof (intro conjI impI)
  show "cleanText (Stringable s) k = Inr (normalize_spec k s)" by (rule cleanText_normalize_spec)
next
  let ?b = "\<lparr>body_name = Stringable n, body_message = Stringable m\<rparr>"
  let ?r = "submit_entry cfg ev rq db"
  assume a: "express_json rq = Inr ?b \<and> fst (response ?r) = 200"
  then have r: "?r = post_api_entries cfg ev ?b db" by (simp add: submit_entry_passed)
  have cn: "cleanText (body_name ?b) 40 = Inr (normalize_spec 40 n)"
    and cm: "cleanText (body_message ?b) 400 = Inr (normalize_spec 400 m)"
    by (simp_all add: cleanText_normalize_spec)
  have "\<not> (normalize_spec 40 n = [] \<or> normalize_spec 400 m = [])"
  proof
    assume "normalize_spec 40 n = [] \<or> normalize_spec 400 m = []"
    then have "blank_field (body_name ?b) \<or> blank_field (body_message ?b)"
      by (simp add: blank_field_def normalize_spec_Nil_iff)
    then have "?r = unchanged (400, JsonError (utf16 ''Name und Nachricht sind Pflicht.'')) db"
      unfolding r by (intro post_api_entries_reject) simp_all
    with a show False by (simp add: unchanged_def)
  qed
  then have ne: "normalize_spec 40 n \<noteq> []" "normalize_spec 400 m \<noteq> []" by simp_all
  have "db_after ?r = snd (stmtInsert db (normalize_spec 40 n) (normalize_spec 400 m) (nowIso ev))"
    unfolding r by (rule post_api_entries_accept(2)[OF cn cm ne])
  then show "\<exists>i. entries (db_after ?r) = entries db @
                 [\<lparr>id' = i, name = sqlite_text (normalize_spec 40 n),
                   message = sqlite_text (normalize_spec 400 m),
                   created_at = sqlite_text (nowIso ev), status = pending\<rparr>]"
    by (simp add: entries_stmtInsert)
next
  show "length (sqlite_text t) = length t" by (rule length_sqlite_text)
next
  assume "well_formed t"
  then show "sqlite_text t = t" by (rule sqlite_text_well_formed)
next
  assume "40 < length (squeeze False (trim n))"
  then show "length (sqlite_text (normalize_spec 40 n)) = 40"
    by (simp add: length_sqlite_text normalize_spec_def)
next
  show "sqlite_text (normalize_spec 40 (utf16 ''  A   B  '')) = utf16 ''A B''"
    by (simp only: normalize_spec_examples sqlite_text_examples)
  show "sqlite_text (normalize_spec 400 (utf16 ''Hello   world'')) = utf16 ''Hello world''"
    by (simp only: normalize_spec_examples sqlite_text_examples)
qed

lemma squeeze_long_name: "squeeze False (trim long_name) = long_name"
proof -
  have "trim long_name = long_name"
    by (rule trim_keep) (simp_all add: long_name_def utf16_def ws_facts hd_append)
  moreover have "replace_ws_runs long_name = long_name"
    by (simp add: long_name_def utf16_def replace_ws_runs_replicate ws_facts)
       (simp add: cu_def)
  ultimately show ?thesis by (simp add: replace_ws_runs_squeeze)
qed

lemma sqlite_text_long_name_cut:
  "sqlite_text (replicate 39 (cu CHR ''a'') @ [0x20]) = replicate 39 (cu CHR ''a'') @ [0x20]"
  by (simp add: sqlite_text_replicate not_surrogate_facts)

lemma well_formed_long_name_cut: "well_formed (replicate 39 (cu CHR ''a'') @ [0x20])"
  by (rule well_formed_no_surrogate) (simp add: not_surrogate_facts list_all_iff)

theorem stored_text_is_normalized_witness:
  "express_json (json_request (Stringable long_name) (Stringable (utf16 ''Hello   world'')))
     = Inr \<lparr>body_name = Stringable long_name, body_message = Stringable (utf16 ''Hello   world'')\<rparr>
   \<and> fst (response (submit_entry example_config example_env
          (json_request (Stringable long_name) (Stringable (utf16 ''Hello   world''))) empty_db)) = 200
   \<and> (\<exists>i. entries (db_after (submit_entry example_config example_env
          (json_request (Stringable long_name) (Stringable (utf16 ''Hello   world''))) empty_db)) =
          [\<lparr>id' = i, name = replicate 39 (cu CHR ''a'') @ utf16 '' '', message = utf16 ''Hello world'',
            created_at = utf16 ''2024-01-01T00:00:00.000Z'', status = pending\<rparr>])
   \<and> well_formed (replicate 39 (cu CHR ''a'') @ [0x20])
   \<and> sqlite_text (replicate 39 (cu CHR ''a'') @ [0x20]) = replicate 39 (cu CHR ''a'') @ [0x20]
   \<and> 40 < length (squeeze False (trim long_name))
   \<and> length (sqlite_text (normalize_spec 40 long_name)) = 40"
proof -
  let ?rq = "json_request (Stringable long_name) (Stringable (utf16 ''Hello   world''))"
  let ?b = "\<lparr>body_name = Stringable long_name, body_message = Stringable (utf16 ''Hello   world'')\<rparr>"
  let ?t = "replicate 39 (cu CHR ''a'') @ [0x20]"
  note th = stored_text_is_normalized[where s = long_name and k = 40 and rq = ?rq
      and n = long_name and m = "utf16 ''Hello   world''" and cfg = example_config
      and ev = example_env and db = empty_db and t = ?t]
  have e: "express_json ?rq = Inr ?b" by (rule express_json_json_request)
  have nm: "normalize_spec 40 long_name = ?t"
    using cleanText_long_name by (simp add: cleanText_normalize_spec)
  have cn: "cleanText (body_name ?b) 40 = Inr ?t" by (simp add: cleanText_long_name)
  have cm: "cleanText (body_message ?b) 400 = Inr (utf16 ''Hello world'')"
    by (simp add: cleanText_normalize_spec normalize_spec_examples)
  have ne: "?t \<noteq> []" "utf16 ''Hello world'' \<noteq> []" by (simp_all add: utf16_def)
  have ok: "fst (response (submit_entry example_config example_env ?rq empty_db)) = 200"
    using post_api_entries_accept(1)[OF cn cm ne, of example_config example_env empty_db]
    by (simp add: submit_entry_passed[OF e])
  have len: "40 < length (squeeze False (trim long_name))"
    by (simp add: squeeze_long_name) (simp add: long_name_def utf16_def)
  have now: "sqlite_text (nowIso example_env) = utf16 ''2024-01-01T00:00:00.000Z''"
    by (simp add: example_env_def utf16_def cu_def isHighSurrogate_def isLowSurrogate_def)
  from th e ok obtain i where
    "entries (db_after (submit_entry example_config example_env ?rq empty_db)) = entries empty_db @
       [\<lparr>id' = i, name = sqlite_text (normalize_spec 40 long_name),
         message = sqlite_text (normalize_spec 400 (utf16 ''Hello   world'')),
         created_at = sqlite_text (nowIso example_env), status = pending\<rparr>]"
    by blast
  then have row: "\<exists>i. entries (db_after (submit_entry example_config example_env ?rq empty_db)) =
          [\<lparr>id' = i, name = replicate 39 (cu CHR ''a'') @ utf16 '' '', message = utf16 ''Hello world'',
            created_at = utf16 ''2024-01-01T00:00:00.000Z'', status = pending\<rparr>]"
    by (simp add: nm sqlite_text_long_name_cut normalize_spec_examples sqlite_text_examples now
        empty_db_def) (simp add: utf16_def cu_def)
  from th well_formed_long_name_cut have wf: "sqlite_text ?t = ?t" by blast
  from th len have l40: "length (sqlite_text (normalize_spec 40 long_name)) = 40" by blast
  from e ok row well_formed_long_name_cut wf len l40 show ?thesis by blast
qed

section \<open>Escaping and the mail body\<close>

lemma replaceAll_append: "replaceAll p r (xs @ ys) = replaceAll p r xs @ replaceAll p r ys"
  by (induction xs) auto

lemma escapeHtml_Nil: "escapeHtml [] = []"
  by (simp add: escapeHtml_def)

lemma escapeHtml_Cons: "escapeHtml (c # cs) = escapeChar c @ escapeHtml cs"
  by (simp add: escapeHtml_def escapeChar_def replaceAll_append utf16_def cu_def)

lemma escapeHtml_concat: "escapeHtml s = concat (map escapeChar s)"
  by (induction s) (simp_all add: escapeHtml_Nil escapeHtml_Cons)

lemma amps_ok_nth:
  "amps_ok t \<Longrightarrow> i < length t \<Longrightarrow> t ! i = cu CHR ''&'' \<Longrightarrow> begins_entity (drop i t)"
proof (induction t arbitrary: i)
  case Nil
  then show ?case by simp
next
  case (Cons c cs)
  show ?case
  proof (cases i)
    case 0
    with Cons.prems show ?thesis by simp
  next
    case (Suc j)
    with Cons.prems Cons.IH[of j] show ?thesis by simp
  qed
qed

lemma amps_ok_escapeChar: "amps_ok t \<Longrightarrow> amps_ok (escapeChar c @ t)"
  by (simp add: escapeChar_def utf16_def cu_def begins_entity_def entities_def)

lemma amps_ok_escapeHtml: "amps_ok (escapeHtml s)"
  by (induction s) (simp_all add: escapeHtml_Nil escapeHtml_Cons amps_ok_escapeChar)

lemma escapeChar_no_markup: "set (escapeChar c) \<inter> markup_chars = {}"
  by (simp add: escapeChar_def utf16_def cu_def markup_chars_def)

lemma escapeHtml_no_markup: "set (escapeHtml s) \<inter> markup_chars = {}"
  using escapeChar_no_markup
  by (induction s) (simp_all add: escapeHtml_Nil escapeHtml_Cons Int_Un_distrib2)

lemma trim_strip:
  assumes "isWhiteSpace a" "\<not> isWhiteSpace c" "\<not> isWhiteSpace y" "isWhiteSpace z"
  shows "trim (a # c # xs @ [y, z]) = c # xs @ [y]"
  using assms by (simp add: trim_def)

lemma mail_html_0_split: "mail_html_0 = 0x000A # 0x003C # tl (tl mail_html_0)"
  by (simp add: mail_html_0_def utf16_def cu_def)

lemma mail_html_5_split: "mail_html_5 = butlast (butlast mail_html_5) @ [0x003E, 0x000A]"
  by (simp add: mail_html_5_def utf16_def cu_def)

lemma buildMailHtml_parts:
  "buildMailHtml n m c au ru =
     tl mail_html_0 @ escapeHtml n @ mail_html_1 @ escapeHtml m @ mail_html_2 @ escapeHtml c
       @ mail_html_3 @ au @ mail_html_4 @ ru @ butlast mail_html_5"
proof -
  let ?h = "tl (tl mail_html_0)" and ?t = "butlast (butlast mail_html_5)"
  let ?mid = "escapeHtml n @ mail_html_1 @ escapeHtml m @ mail_html_2 @ escapeHtml c
       @ mail_html_3 @ au @ mail_html_4 @ ru"
  have ws: "isWhiteSpace 0x000A" "\<not> isWhiteSpace 0x003C" "\<not> isWhiteSpace 0x003E"
    by (simp_all add: isWhiteSpace_def)
  have "buildMailHtml n m c au ru = trim (mail_html_0 @ ?mid @ mail_html_5)"
    by (simp add: buildMailHtml_def)
  also have "mail_html_0 @ ?mid @ mail_html_5
               = 0x000A # 0x003C # (?h @ ?mid @ ?t) @ [0x003E, 0x000A]"
    by (subst mail_html_0_split, subst mail_html_5_split) simp
  also have "trim \<dots> = 0x003C # (?h @ ?mid @ ?t) @ [0x003E]"
    by (rule trim_strip) (rule ws)+
  also have "\<dots> = (0x003C # ?h) @ ?mid @ (?t @ [0x003E])" by simp
  also have "0x003C # ?h = tl mail_html_0" by (subst (2) mail_html_0_split) simp
  also have "?t @ [0x003E] = butlast mail_html_5" by (subst (2) mail_html_5_split) (simp add: butlast_append)
  finally show ?thesis by simp
qed

lemma sendModerationMail_html:
  assumes "m \<in> set (snd (sendModerationMail cfg ev e))"
  shows "\<exists>au ru. html m = buildMailHtml (name e) (message e) (created_at e) au ru"
  using assms
  by (auto simp: sendModerationMail_def Let_def split: if_splits option.splits)

lemma hasSmtp_smtp_config: "hasSmtp smtp_config"
  by (simp add: hasSmtp_def env_set_def smtp_config_def trim_def utf16_def cu_def isWhiteSpace_def)

text \<open>
  C9: the name, message and time stand in the mail body only as \<open>escapeHtml\<close> made
  them, between the fixed parts of the template; an escaped string holds none of the
  characters \<open><\<close>, \<open>>\<close>, the double and the single quote, and each of its
  ampersands begins one of the five entities.
\<close>

theorem notification_fields_escaped:
  "set (escapeHtml s) \<inter> markup_chars = {}
   \<and> (\<forall>i<length (escapeHtml s).
         escapeHtml s ! i = cu CHR ''&'' \<longrightarrow> begins_entity (drop i (escapeHtml s)))
   \<and> (\<forall>m\<in>set (snd (sendModerationMail cfg ev e)).
         \<exists>approve_url reject_url.
           html m = tl mail_html_0 @ escapeHtml (name e) @ mail_html_1 @ escapeHtml (message e)
                      @ mail_html_2 @ escapeHtml (created_at e) @ mail_html_3 @ approve_url
                      @ mail_html_4 @ reject_url @ butlast mail_html_5)"
proof (intro conjI allI impI ballI)
  show "set (escapeHtml s) \<inter> markup_chars = {}" by (rule escapeHtml_no_markup)
next
  fix i
  assume "i < length (escapeHtml s)" "escapeHtml s ! i = cu CHR ''&''"
  with amps_ok_escapeHtml[of s] show "begins_entity (drop i (escapeHtml s))"
    by (rule amps_ok_nth)
next
  fix m
  assume "m \<in> set (snd (sendModerationMail cfg ev e))"
  then obtain au ru where "html m = buildMailHtml (name e) (message e) (created_at e) au ru"
    using sendModerationMail_html by blast
  then show "\<exists>approve_url reject_url.
           html m = tl mail_html_0 @ escapeHtml (name e) @ mail_html_1 @ escapeHtml (message e)
                      @ mail_html_2 @ escapeHtml (created_at e) @ mail_html_3 @ approve_url
                      @ mail_html_4 @ reject_url @ butlast mail_html_5"
    by (simp only: buildMailHtml_parts) blast
qed

theorem notification_fields_escaped_witness:
  "escapeHtml (utf16 ''&<b>'') = utf16 ''&amp;&lt;b&gt;''
   \<and> set (escapeHtml (utf16 ''&<b>'')) \<inter> markup_chars = {}
   \<and> begins_entity (drop 5 (escapeHtml (utf16 ''&<b>'')))
   \<and> snd (sendModerationMail smtp_config example_env markup_row) \<noteq> []
   \<and> (\<exists>approve_url reject_url.
         html (hd (snd (sendModerationMail smtp_config example_env markup_row))) =
           tl mail_html_0 @ utf16 ''&amp;&lt;b&gt;'' @ mail_html_1 @ utf16 ''Tom &amp; Jerry''
             @ mail_html_2 @ utf16 ''2024-01-01T00:00:00.000Z'' @ mail_html_3 @ approve_url
             @ mail_html_4 @ reject_url @ butlast mail_html_5)"
proof -
  let ?s = "utf16 ''&<b>''"
  let ?out = "snd (sendModerationMail smtp_config example_env markup_row)"
  note th = notification_fields_escaped[of ?s smtp_config example_env markup_row]
  have e1: "escapeHtml ?s = utf16 ''&amp;&lt;b&gt;''"
    by (simp add: escapeHtml_def utf16_def cu_def)
  have e2: "escapeHtml (utf16 ''Tom & Jerry'') = utf16 ''Tom &amp; Jerry''"
    by (simp add: escapeHtml_def utf16_def cu_def)
  have e3: "escapeHtml (utf16 ''2024-01-01T00:00:00.000Z'') = utf16 ''2024-01-01T00:00:00.000Z''"
    by (simp add: escapeHtml_def utf16_def cu_def)
  have i: "5 < length (escapeHtml ?s)" "escapeHtml ?s ! 5 = cu CHR ''&''"
    by (simp_all add: e1) (simp_all add: utf16_def cu_def)
  have ne: "?out \<noteq> []"
    by (simp add: sendModerationMail_def hasSmtp_smtp_config Let_def)
       (simp add: example_env_def)
  then have hdm: "hd ?out \<in> set ?out" by simp
  from th i have "begins_entity (drop 5 (escapeHtml ?s))" by blast
  moreover from th hdm have "\<exists>approve_url reject_url.
         html (hd ?out) =
           tl mail_html_0 @ escapeHtml (name markup_row) @ mail_html_1 @ escapeHtml (message markup_row)
             @ mail_html_2 @ escapeHtml (created_at markup_row) @ mail_html_3 @ approve_url
             @ mail_html_4 @ reject_url @ butlast mail_html_5" by blast
  then have "\<exists>approve_url reject_url.
         html (hd ?out) =
           tl mail_html_0 @ utf16 ''&amp;&lt;b&gt;'' @ mail_html_1 @ utf16 ''Tom &amp; Jerry''
             @ mail_html_2 @ utf16 ''2024-01-01T00:00:00.000Z'' @ mail_html_3 @ approve_url
             @ mail_html_4 @ reject_url @ butlast mail_html_5"
    by (simp only: markup_row_def public_row.simps e1 e2 e3)
  moreover from th have "set (escapeHtml ?s) \<inter> markup_chars = {}" by blast
  ultimately show ?thesis using e1 ne by blast
qed

section \<open>The reachable databases\<close>

lemma wf_db_empty: "wf_db empty_db"
  by (simp add: wf_db_def empty_db_def)

lemma wf_db_stmtInsert:
  assumes "wf_db db"
  shows "wf_db (snd (stmtInsert db n m c))"
proof -
  let ?i = "fst (stmtInsert db n m c)"
  have fresh: "?i \<notin> id' ` set (entries db)"
    using stmtInsert_fresh[of _ db n m c] by force
  have pos: "0 < ?i" using stmtInsert_above_seq[of db n m c] assms by (simp add: wf_db_def)
  show ?thesis
    using assms fresh pos
    by (simp add: wf_db_def entries_stmtInsert seq_stmtInsert)
qed

lemma ids_stmtSetStatus: "map id' (entries (snd (stmtSetStatus db i st))) = map id' (entries db)"
  by (simp add: stmtSetStatus_def comp_def if_distrib cong: if_cong)

lemma seq_stmtSetStatus: "seq (snd (stmtSetStatus db i st)) = seq db"
  by (simp add: stmtSetStatus_def)

lemma wf_db_stmtSetStatus:
  assumes "wf_db db"
  shows "wf_db (snd (stmtSetStatus db i st))"
proof -
  have "list_all (\<lambda>e. 0 < id' e) (entries (snd (stmtSetStatus db i st)))
          = list_all (\<lambda>x. 0 < x) (map id' (entries (snd (stmtSetStatus db i st))))"
    by (simp add: list_all_iff)
  also have "\<dots> = list_all (\<lambda>e. 0 < id' e) (entries db)"
    by (simp only: ids_stmtSetStatus) (simp add: list_all_iff)
  finally show ?thesis using assms by (simp add: wf_db_def ids_stmtSetStatus seq_stmtSetStatus)
qed

lemma db_after_post_cases:
  "db_after (post_api_entries cfg ev b db) = db
   \<or> (\<exists>n m. db_after (post_api_entries cfg ev b db) = snd (stmtInsert db n m (nowIso ev)))"
proof -
  consider "body_name b = Unstringable \<or> body_message b = Unstringable"
    | "body_name b \<noteq> Unstringable" "body_message b \<noteq> Unstringable"
      "blank_field (body_name b) \<or> blank_field (body_message b)"
    | "filled_field (body_name b)" "filled_field (body_message b)"
    using field_cases[of "body_name b"] field_cases[of "body_message b"] by blast
  then show ?thesis
  proof cases
    case 1
    then show ?thesis by (simp add: post_api_entries_throws unchanged_def)
  next
    case 2
    then show ?thesis by (simp add: post_api_entries_reject unchanged_def)
  next
    case 3
    from 3(1) obtain n where n: "cleanText (body_name b) 40 = Inr n" "n \<noteq> []"
      using cleanText_filled_iff[of 40 "body_name b"] by auto
    from 3(2) obtain m where m: "cleanText (body_message b) 400 = Inr m" "m \<noteq> []"
      using cleanText_filled_iff[of 400 "body_message b"] by auto
    show ?thesis using post_api_entries_accept(2)[OF n(1) m(1) n(2) m(2)] by blast
  qed
qed

lemma db_after_cases:
  "db_after (submit_entry cfg ev rq db) = db
   \<or> (\<exists>n m. db_after (submit_entry cfg ev rq db) = snd (stmtInsert db n m (nowIso ev)))"
proof (cases "express_json rq")
  case (Inl code)
  then show ?thesis by (simp add: submit_entry_refused unchanged_def)
next
  case (Inr b)
  then show ?thesis using db_after_post_cases[of cfg ev b db] by (simp add: submit_entry_passed)
qed

lemma wf_db_serve: "wf_db db \<Longrightarrow> wf_db (serve cfg rq db)"
proof (cases rq)
  case GetEntries
  assume "wf_db db"
  then show ?thesis using GetEntries by (simp add: get_api_entries_def)
next
  case (PostEntries ev rq)
  assume "wf_db db"
  then show ?thesis
    using PostEntries db_after_cases[of cfg ev rq db] wf_db_stmtInsert[of db] by auto
next
  case (GetPending req)
  assume "wf_db db"
  then show ?thesis using GetPending by (simp add: get_admin_pending_def)
next
  case (GetApprove req)
  assume "wf_db db"
  then show ?thesis using GetApprove by (simp add: get_admin_approve_def wf_db_stmtSetStatus)
next
  case (GetReject req)
  assume "wf_db db"
  then show ?thesis using GetReject by (simp add: get_admin_reject_def wf_db_stmtSetStatus)
qed

lemma reachable_wf_db: "reachable cfg db \<Longrightarrow> wf_db db"
  by (induction rule: reachable.induct) (simp_all add: wf_db_empty wf_db_serve)

section \<open>The public listing\<close>

lemma set_order_by_id_desc: "set (order_by_id_desc es) = set es"
  by (simp add: order_by_id_desc_def)

lemma length_order_by_id_desc: "length (order_by_id_desc es) = length es"
  by (simp add: order_by_id_desc_def)

lemma distinct_map_insort_key:
  "distinct (map f (insort_key f x xs)) = (f x \<notin> f ` set xs \<and> distinct (map f xs))"
  by (induction xs) (auto simp: set_insort_key)

lemma distinct_map_sort_key: "distinct (map f (sort_key f xs)) = distinct (map f xs)"
  by (induction xs) (simp_all add: distinct_map_insort_key)

lemma order_by_id_desc_sorted:
  assumes "distinct (map id' es)"
  shows "sorted_wrt (>) (map id' (order_by_id_desc es))"
proof -
  have "distinct (map id' (sort_key id' es))"
    using assms by (simp only: distinct_map_sort_key)
  moreover have "sorted (map id' (sort_key id' es))" by (rule sorted_sort_key)
  ultimately have "sorted_wrt (<) (map id' (sort_key id' es))"
    by (simp add: strict_sorted_iff)
  then have "sorted_wrt (>) (rev (map id' (sort_key id' es)))"
    by (simp add: sorted_wrt_rev)
  then show ?thesis by (simp add: order_by_id_desc_def rev_map)
qed

lemma stmtApproved_alt:
  "stmtApproved db =
     map public_fields (take 50 (order_by_id_desc (filter (\<lambda>e. status e = approved) (entries db))))"
  by (simp add: stmtApproved_def public_fields_def take_map)

lemma ids_public_fields: "map id' (map public_fields es) = map id' es"
  by (simp add: public_fields_def)

text \<open>
  C1: in every reachable state the public listing answers 200 with rows that are the
  public fields of approved entries only, in strictly descending order of id, at most 50
  of them; no entry that is pending or rejected has its id among the rows.
\<close>

theorem public_listing_approved_only:
  assumes "reachable cfg db"
  shows "\<exists>rows. get_api_entries db = ((200, JsonRows rows), db)
     \<and> (\<forall>r\<in>set rows. \<exists>e\<in>set (entries db). status e = approved \<and>
            r = \<lparr>id' = id' e, name = name e, message = message e, created_at = created_at e\<rparr>)
     \<and> (\<forall>e\<in>set (entries db). status e \<noteq> approved \<longrightarrow> id' e \<notin> id' ` set rows)
     \<and> sorted_wrt (>) (map id' rows)
     \<and> length rows = min 50 (length (filter (\<lambda>e. status e = approved) (entries db)))
     \<and> length rows \<le> 50"
proof -
  let ?appr = "filter (\<lambda>e. status e = approved) (entries db)"
  let ?top = "take 50 (order_by_id_desc ?appr)"
  let ?rows = "stmtApproved db"
  have wf: "wf_db db" using assms by (rule reachable_wf_db)
  then have dist: "distinct (map id' (entries db))" by (simp add: wf_db_def)
  have rows: "?rows = map public_fields ?top" by (rule stmtApproved_alt)
  have sub: "set ?top \<subseteq> set ?appr"
    using set_take_subset[of 50 "order_by_id_desc ?appr"] by (simp add: set_order_by_id_desc)
  have 1: "get_api_entries db = ((200, JsonRows ?rows), db)" by (simp add: get_api_entries_def)
  have 2: "\<forall>r\<in>set ?rows. \<exists>e\<in>set (entries db). status e = approved \<and>
            r = \<lparr>id' = id' e, name = name e, message = message e, created_at = created_at e\<rparr>"
  proof
    fix r assume "r \<in> set ?rows"
    then obtain e where e: "e \<in> set ?top" "r = public_fields e" by (auto simp: rows)
    with sub have "e \<in> set (entries db)" "status e = approved" by auto
    with e(2) show "\<exists>e\<in>set (entries db). status e = approved \<and>
            r = \<lparr>id' = id' e, name = name e, message = message e, created_at = created_at e\<rparr>"
      by (auto simp: public_fields_def)
  qed
  have 3: "\<forall>e\<in>set (entries db). status e \<noteq> approved \<longrightarrow> id' e \<notin> id' ` set ?rows"
  proof (intro ballI impI notI)
    fix e assume e: "e \<in> set (entries db)" "status e \<noteq> approved" "id' e \<in> id' ` set ?rows"
    then obtain r where r: "r \<in> set ?rows" "id' r = id' e" by force
    with 2 obtain e' where e': "e' \<in> set (entries db)" "status e' = approved" "id' e' = id' e"
      by force
    from dist have "inj_on id' (set (entries db))" by (simp add: distinct_map)
    with e(1) e'(1,3) have "e' = e" by (auto dest: inj_onD)
    with e(2) e'(2) show False by simp
  qed
  have "distinct (map id' ?appr)" using dist by (rule distinct_map_filter)
  then have "sorted_wrt (>) (map id' (order_by_id_desc ?appr))" by (rule order_by_id_desc_sorted)
  then have "sorted_wrt (>) (take 50 (map id' (order_by_id_desc ?appr)))"
    by (rule sorted_wrt_take)
  then have 4: "sorted_wrt (>) (map id' ?rows)"
    by (simp only: rows ids_public_fields take_map)
  have 5: "length ?rows = min 50 (length ?appr)"
    by (simp add: rows length_order_by_id_desc min.commute)
  then have 6: "length ?rows \<le> 50" by simp
  from 1 2 3 4 5 6 show ?thesis by blast
qed

lemma reachable_fold: "reachable cfg db \<Longrightarrow> reachable cfg (fold (serve cfg) rqs db)"
  by (induction rqs arbitrary: db) (simp_all add: reachable.request)

lemma requireAdmin_admin_query: "requireAdmin example_config (admin_query q)"
  by (simp add: requireAdmin_def presented_token_def admin_query_def example_config_def utf16_def)

lemma example_db_run: "fold (serve example_config) example_requests empty_db = example_db"
  by (simp add: example_requests_def submit_entry_def express_json_def json_request_def
      post_api_entries_def cleanText_def trim_def utf16_def cu_def isWhiteSpace_def Let_def
      isHighSurrogate_def isLowSurrogate_def stmtInsert_def empty_db_def sendModerationMail_def
      hasSmtp_def env_set_def get_admin_approve_def get_admin_reject_def requireAdmin_def
      presented_token_def example_config_def stmtSetStatus_def admin_query_def example_db_def
      example_env_def)

lemma reachable_example_db: "reachable example_config example_db"
  using reachable_fold[OF reachable.start, of example_config example_requests]
  by (simp only: example_db_run)

lemma stmtApproved_example_db:
  "stmtApproved example_db =
     [\<lparr>id' = 3, name = utf16 ''D'', message = utf16 ''third'',
       created_at = utf16 ''2024-01-01T00:00:00.000Z''\<rparr>,
      \<lparr>id' = 1, name = utf16 ''A B'', message = utf16 ''Hello world'',
       created_at = utf16 ''2024-01-01T00:00:00.000Z''\<rparr>]"
  by (simp add: stmtApproved_def order_by_id_desc_def example_db_def)

theorem public_listing_approved_only_witness:
  "reachable example_config example_db
   \<and> (\<exists>rows. get_api_entries example_db = ((200, JsonRows rows), example_db)
     \<and> (\<forall>r\<in>set rows. \<exists>e\<in>set (entries example_db). status e = approved \<and>
            r = \<lparr>id' = id' e, name = name e, message = message e, created_at = created_at e\<rparr>)
     \<and> (\<forall>e\<in>set (entries example_db). status e \<noteq> approved \<longrightarrow> id' e \<notin> id' ` set rows)
     \<and> sorted_wrt (>) (map id' rows)
     \<and> length rows = min 50 (length (filter (\<lambda>e. status e = approved) (entries example_db)))
     \<and> length rows \<le> 50)
   \<and> get_api_entries example_db =
       ((200, JsonRows
          [\<lparr>id' = 3, name = utf16 ''D'', message = utf16 ''third'',
            created_at = utf16 ''2024-01-01T00:00:00.000Z''\<rparr>,
           \<lparr>id' = 1, name = utf16 ''A B'', message = utf16 ''Hello world'',
            created_at = utf16 ''2024-01-01T00:00:00.000Z''\<rparr>]), example_db)"
proof -
  have "get_api_entries example_db = ((200, JsonRows (stmtApproved example_db)), example_db)"
    by (simp add: get_api_entries_def)
  then show ?thesis
    using public_listing_approved_only[OF reachable_example_db] reachable_example_db
    by (simp only: stmtApproved_example_db)
qed

section \<open>Validation of a submission\<close>

lemma blank_spaces:
  "blank_field (Stringable (utf16 ''   ''))" "filled_field (Stringable (utf16 ''Bob''))"
  "filled_field (Stringable (utf16 ''hi''))"
  by (simp_all add: blank_field_def filled_field_def utf16_def cu_def isWhiteSpace_def)

lemma cleanText_bob:
  "cleanText (Stringable (utf16 ''Bob'')) 40 = Inr (utf16 ''Bob'')"
  "cleanText (Stringable (utf16 ''hi'')) 400 = Inr (utf16 ''hi'')"
  by (simp_all add: cleanText_def trim_def utf16_def cu_def isWhiteSpace_def)

lemma sqlite_text_bob:
  "sqlite_text (utf16 ''Bob'') = utf16 ''Bob''" "sqlite_text (utf16 ''hi'') = utf16 ''hi''"
  "sqlite_text (nowIso example_env) = utf16 ''2024-01-01T00:00:00.000Z''"
  by (simp_all add: example_env_def utf16_def cu_def isHighSurrogate_def isLowSurrogate_def)




section \<open>The moderation gate\<close>




section \<open>Approve and reject\<close>

lemma stmtSetStatus_no_match:
  assumes "list_all (\<lambda>e. \<not> id_equals (id' e) i) (entries db)"
  shows "stmtSetStatus db i st = (0, db)"
proof -
  from assms have a: "\<forall>e\<in>set (entries db). \<not> id_equals (id' e) i" by (simp add: list_all_iff)
  then have "filter (\<lambda>e. id_equals (id' e) i) (entries db) = []" by (simp add: filter_empty_conv)
  moreover have "map (\<lambda>e. if id_equals (id' e) i then e\<lparr>status := st\<rparr> else e) (entries db) = entries db"
    using a by (simp add: map_idI)
  ultimately show ?thesis by (simp add: stmtSetStatus_def)
qed


lemma stmtSetStatus_idem:
  "snd (stmtSetStatus (snd (stmtSetStatus db i st)) i st) = snd (stmtSetStatus db i st)"
  by (simp add: stmtSetStatus_def comp_def if_distrib cong: if_cong)






lemma query_id_admin_query: "query_id (admin_query q) = Finite q"
  by (simp add: admin_query_def)





lemma approve_twice:
  "get_admin_approve cfg req (snd (get_admin_approve cfg req db)) = get_admin_approve cfg req db"
  by (simp add: get_admin_approve_def stmtSetStatus_idem)

lemma length_entries_stmtSetStatus:
  "length (entries (snd (stmtSetStatus db i st))) = length (entries db)"
  by (simp add: stmtSetStatus_def)

text \<open>
  C7: the status update of an id that no entry has changes nothing and reports no row
  (\<open>changes = 0\<close>) instead of failing, and the approve route answers its confirmation
  all the same. Approving twice is idempotent: the second request gives the same answer
  as the first and leaves the database as the first left it, with the same rows and ids.
\<close>

theorem setStatus_noop_and_approve_idempotent:
  "(list_all (\<lambda>e. \<not> id_equals (id' e) i) (entries db) \<longrightarrow> stmtSetStatus db i st = (0, db))
   \<and> (requireAdmin cfg req \<and> truthy_number (query_id req)
        \<and> list_all (\<lambda>e. \<not> id_equals (id' e) (query_id req)) (entries db) \<longrightarrow>
          get_admin_approve cfg req db = ((200, Text approved_text), db))
   \<and> get_admin_approve cfg req (snd (get_admin_approve cfg req db)) = get_admin_approve cfg req db
   \<and> map id' (entries (snd (get_admin_approve cfg req db))) = map id' (entries db)
   \<and> length (entries (snd (get_admin_approve cfg req db))) = length (entries db)
   \<and> (requireAdmin cfg req \<and> truthy_number (query_id req) \<longrightarrow>
          fst (get_admin_approve cfg req db) = (200, Text approved_text)
        \<and> fst (get_admin_approve cfg req (snd (get_admin_approve cfg req db)))
            = (200, Text approved_text))"
proof (intro conjI impI)
  assume "list_all (\<lambda>e. \<not> id_equals (id' e) i) (entries db)"
  then show "stmtSetStatus db i st = (0, db)" by (rule stmtSetStatus_no_match)
next
  assume a: "requireAdmin cfg req \<and> truthy_number (query_id req)
        \<and> list_all (\<lambda>e. \<not> id_equals (id' e) (query_id req)) (entries db)"
  then have "stmtSetStatus db (query_id req) approved = (0, db)"
    by (simp add: stmtSetStatus_no_match)
  with a show "get_admin_approve cfg req db = ((200, Text approved_text), db)"
    by (simp add: get_admin_approve_def)
next
  show "get_admin_approve cfg req (snd (get_admin_approve cfg req db)) = get_admin_approve cfg req db"
    by (rule approve_twice)
next
  show "map id' (entries (snd (get_admin_approve cfg req db))) = map id' (entries db)"
    by (simp add: get_admin_approve_def ids_stmtSetStatus)
next
  show "length (entries (snd (get_admin_approve cfg req db))) = length (entries db)"
    by (simp add: get_admin_approve_def length_entries_stmtSetStatus)
next
  assume a: "requireAdmin cfg req \<and> truthy_number (query_id req)"
  then show "fst (get_admin_approve cfg req db) = (200, Text approved_text)"
    by (simp add: get_admin_approve_def)
  then show "fst (get_admin_approve cfg req (snd (get_admin_approve cfg req db)))
            = (200, Text approved_text)"
    by (simp only: approve_twice)
qed

theorem setStatus_noop_and_approve_idempotent_witness:
  "list_all (\<lambda>e. \<not> id_equals (id' e) (Finite 99)) (entries example_db)
   \<and> stmtSetStatus example_db (Finite 99) approved = (0, example_db)
   \<and> requireAdmin example_config (admin_query 99) \<and> truthy_number (query_id (admin_query 99))
   \<and> get_admin_approve example_config (admin_query 99) example_db
        = ((200, Text approved_text), example_db)
   \<and> requireAdmin example_config (admin_query 2) \<and> truthy_number (query_id (admin_query 2))
   \<and> fst (get_admin_approve example_config (admin_query 2) example_db) = (200, Text approved_text)
   \<and> map status (entries (snd (get_admin_approve example_config (admin_query 2) example_db)))
        = [approved, approved, approved, rejected]
   \<and> get_admin_approve example_config (admin_query 2)
        (snd (get_admin_approve example_config (admin_query 2) example_db))
        = get_admin_approve example_config (admin_query 2) example_db"
proof -
  note n = setStatus_noop_and_approve_idempotent[of "Finite 99" example_db approved
      example_config "admin_query 99"]
  note t = setStatus_noop_and_approve_idempotent[of "Finite 2" example_db approved
      example_config "admin_query 2"]
  have a: "list_all (\<lambda>e. \<not> id_equals (id' e) (Finite 99)) (entries example_db)"
    by (simp add: example_db_def)
  have b: "truthy_number (query_id (admin_query 99))" "truthy_number (query_id (admin_query 2))"
    by (simp_all add: query_id_admin_query)
  have c: "list_all (\<lambda>e. \<not> id_equals (id' e) (query_id (admin_query 99))) (entries example_db)"
    using a by (simp only: query_id_admin_query)
  have d: "map status (entries (snd (get_admin_approve example_config (admin_query 2) example_db)))
        = [approved, approved, approved, rejected]"
    by (simp add: get_admin_approve_def requireAdmin_admin_query query_id_admin_query
        stmtSetStatus_def example_db_def)
  from n a have "stmtSetStatus example_db (Finite 99) approved = (0, example_db)" by blast
  moreover from n b(1) c requireAdmin_admin_query[of 99]
  have "get_admin_approve example_config (admin_query 99) example_db
        = ((200, Text approved_text), example_db)" by blast
  moreover from t b(2) requireAdmin_admin_query[of 2]
  have "fst (get_admin_approve example_config (admin_query 2) example_db) = (200, Text approved_text)"
    by blast
  moreover from t have "get_admin_approve example_config (admin_query 2)
        (snd (get_admin_approve example_config (admin_query 2) example_db))
        = get_admin_approve example_config (admin_query 2) example_db" by blast
  ultimately show ?thesis
    using a b d requireAdmin_admin_query[of 99] requireAdmin_admin_query[of 2] by blast
qed

section \<open>Mail failures\<close>

lemma env_set_iff: "env_set v \<longleftrightarrow> \<not> blank v"
  by (cases v) (simp_all add: env_set_def blank_def trim_Nil_iff)

lemma hasSmtp_iff:
  "hasSmtp cfg \<longleftrightarrow> \<not> blank (SMTP_HOST cfg) \<and> \<not> blank (SMTP_USER cfg) \<and> \<not> blank (SMTP_PASS cfg)"
  by (simp add: hasSmtp_def env_set_iff)

lemma sendModerationMail_unconfigured:
  "\<not> hasSmtp cfg \<Longrightarrow> sendModerationMail cfg ev e = (Inr (), [])"
  by (simp add: sendModerationMail_def)

text \<open>
  C8: a valid submission (a body that the middleware passes on, with a name and a
  message that are not blank) is answered 200 with the id of the row it inserted, and
  the row is in the database, whatever the mail transport does: the answer and the
  database are the same for every transport outcome, every \<open>encodeURIComponent\<close> and
  every SMTP configuration. Without a host, user or password (unset or white space only)
  no mail is handed to the transport.
\<close>

theorem mail_failure_never_blocks_submission:
  assumes "express_json rq = Inr b" and "filled_field (body_name b)"
    and "filled_field (body_message b)"
  shows "(\<exists>i n m. cleanText (body_name b) 40 = Inr n \<and> cleanText (body_message b) 400 = Inr m
            \<and> response (submit_entry cfg ev rq db) = (200, JsonOk i)
            \<and> \<lparr>id' = i, name = sqlite_text n, message = sqlite_text m,
                created_at = sqlite_text (nowIso ev), status = pending\<rparr>
                 \<in> set (entries (db_after (submit_entry cfg ev rq db))))
    \<and> response (submit_entry cfg' (ev\<lparr>sendMail := f, encodeURIComponent := g\<rparr>) rq db)
         = response (submit_entry cfg ev rq db)
    \<and> db_after (submit_entry cfg' (ev\<lparr>sendMail := f, encodeURIComponent := g\<rparr>) rq db)
         = db_after (submit_entry cfg ev rq db)
    \<and> (hasSmtp cfg \<longleftrightarrow>
          \<not> blank (SMTP_HOST cfg) \<and> \<not> blank (SMTP_USER cfg) \<and> \<not> blank (SMTP_PASS cfg))
    \<and> (\<not> hasSmtp cfg \<longrightarrow> outbox (submit_entry cfg ev rq db) = [])"
proof (intro conjI impI)
  obtain n where n: "cleanText (body_name b) 40 = Inr n" "n \<noteq> []"
    using assms(2) cleanText_filled_iff[of 40 "body_name b"] by auto
  obtain m where m: "cleanText (body_message b) 400 = Inr m" "m \<noteq> []"
    using assms(3) cleanText_filled_iff[of 400 "body_message b"] by auto
  let ?i = "fst (stmtInsert db n m (nowIso ev))"
  have s: "submit_entry c e rq db = post_api_entries c e b db" for c e
    using assms(1) by (rule submit_entry_passed)
  have r: "response (submit_entry c e rq db) = (200, JsonOk (fst (stmtInsert db n m (nowIso e))))"
    for c e
    unfolding s by (rule post_api_entries_accept(1)[OF n(1) m(1) n(2) m(2)])
  have d: "db_after (submit_entry c e rq db) = snd (stmtInsert db n m (nowIso e))" for c e
    unfolding s by (rule post_api_entries_accept(2)[OF n(1) m(1) n(2) m(2)])
  have "\<lparr>id' = ?i, name = sqlite_text n, message = sqlite_text m,
          created_at = sqlite_text (nowIso ev), status = pending\<rparr>
          \<in> set (entries (db_after (submit_entry cfg ev rq db)))"
    by (simp add: d entries_stmtInsert)
  with r[of cfg ev] n(1) m(1)
  show "\<exists>i n m. cleanText (body_name b) 40 = Inr n \<and> cleanText (body_message b) 400 = Inr m
            \<and> response (submit_entry cfg ev rq db) = (200, JsonOk i)
            \<and> \<lparr>id' = i, name = sqlite_text n, message = sqlite_text m,
                created_at = sqlite_text (nowIso ev), status = pending\<rparr>
                 \<in> set (entries (db_after (submit_entry cfg ev rq db)))"
    by blast
  show "response (submit_entry cfg' (ev\<lparr>sendMail := f, encodeURIComponent := g\<rparr>) rq db)
         = response (submit_entry cfg ev rq db)"
    by (simp add: r)
  show "db_after (submit_entry cfg' (ev\<lparr>sendMail := f, encodeURIComponent := g\<rparr>) rq db)
         = db_after (submit_entry cfg ev rq db)"
    by (simp add: d)
  show "hasSmtp cfg \<longleftrightarrow>
          \<not> blank (SMTP_HOST cfg) \<and> \<not> blank (SMTP_USER cfg) \<and> \<not> blank (SMTP_PASS cfg)"
    by (rule hasSmtp_iff)
  assume "\<not> hasSmtp cfg"
  then show "outbox (submit_entry cfg ev rq db) = []"
    unfolding s
    by (simp add: post_api_entries_accept(3)[OF n(1) m(1) n(2) m(2)] sendModerationMail_unconfigured)
qed

theorem mail_failure_never_blocks_submission_witness:
  "express_json (json_request (body_name bob_body) (body_message bob_body)) = Inr bob_body
   \<and> filled_field (body_name bob_body) \<and> filled_field (body_message bob_body)
   \<and> hasSmtp smtp_config \<and> sendMail example_env = (\<lambda>m. False)
   \<and> response (submit_entry smtp_config example_env
        (json_request (body_name bob_body) (body_message bob_body)) example_db) = (200, JsonOk 5)
   \<and> console (submit_entry smtp_config example_env
        (json_request (body_name bob_body) (body_message bob_body)) example_db)
        = [LogMailError SendMailError]
   \<and> length (outbox (submit_entry smtp_config example_env
        (json_request (body_name bob_body) (body_message bob_body)) example_db)) = 1
   \<and> \<lparr>id' = 5, name = utf16 ''Bob'', message = utf16 ''hi'',
        created_at = utf16 ''2024-01-01T00:00:00.000Z'', status = pending\<rparr>
        \<in> set (entries (db_after (submit_entry smtp_config example_env
              (json_request (body_name bob_body) (body_message bob_body)) example_db)))
   \<and> \<not> hasSmtp example_config
   \<and> outbox (submit_entry example_config example_env
        (json_request (body_name bob_body) (body_message bob_body)) example_db) = []
   \<and> response (submit_entry example_config example_env
        (json_request (body_name bob_body) (body_message bob_body)) example_db) = (200, JsonOk 5)"
proof -
  let ?rq = "json_request (body_name bob_body) (body_message bob_body)"
  let ?smtp = "submit_entry smtp_config example_env ?rq example_db"
  let ?plain = "submit_entry example_config example_env ?rq example_db"
  have e: "express_json ?rq = Inr bob_body"
    by (simp add: express_json_json_request bob_body_def)
  have nb: "filled_field (body_name bob_body)" "filled_field (body_message bob_body)"
    by (simp_all add: bob_body_def blank_spaces)
  note th1 = mail_failure_never_blocks_submission[OF e nb, where cfg = smtp_config
      and ev = example_env and db = example_db and cfg' = example_config
      and f = "\<lambda>m. True" and g = "\<lambda>s. None"]
  note th2 = mail_failure_never_blocks_submission[OF e nb, where cfg = example_config
      and ev = example_env and db = example_db and cfg' = smtp_config
      and f = "\<lambda>m. True" and g = "\<lambda>s. None"]
  have c: "cleanText (body_name bob_body) 40 = Inr (utf16 ''Bob'')"
      "cleanText (body_message bob_body) 400 = Inr (utf16 ''hi'')"
    by (simp_all add: bob_body_def cleanText_bob)
  have ne: "utf16 ''Bob'' \<noteq> []" "utf16 ''hi'' \<noteq> []" by (simp_all add: utf16_def)
  have i: "fst (stmtInsert example_db n m t) = 5" for n m t
    by (simp add: stmtInsert_def example_db_def)
  have fail: "sendMail example_env = (\<lambda>m. False)" by (simp add: example_env_def)
  have s: "submit_entry cf example_env ?rq example_db
             = post_api_entries cf example_env bob_body example_db" for cf
    using e by (rule submit_entry_passed)
  have r1: "response ?smtp = (200, JsonOk 5)"
    using post_api_entries_accept(1)[OF c ne, of smtp_config example_env example_db]
    by (simp only: i s)
  have r2: "response ?plain = (200, JsonOk 5)"
    using post_api_entries_accept(1)[OF c ne, of example_config example_env example_db]
    by (simp only: i s)
  have enc: "encodeURIComponent example_env s = Some s" for s by (simp add: example_env_def)
  have sm: "sendModerationMail smtp_config example_env e
              = (Inl SendMailError,
                 [\<lparr>mail_from = MAIL_FROM smtp_config, mail_to = MAIL_TO smtp_config,
                   subject = mail_subject,
                   html = buildMailHtml (name e) (message e) (created_at e)
                     (PUBLIC_BASE_URL smtp_config @ utf16 ''/admin/approve?id='' @ numberToString (id' e)
                        @ utf16 ''&token='' @ ADMIN_TOKEN smtp_config)
                     (PUBLIC_BASE_URL smtp_config @ utf16 ''/admin/reject?id='' @ numberToString (id' e)
                        @ utf16 ''&token='' @ ADMIN_TOKEN smtp_config)\<rparr>])" for e
    by (simp add: sendModerationMail_def hasSmtp_smtp_config enc fail Let_def)
  have con: "console ?smtp = [LogMailError SendMailError]"
    by (simp add: s post_api_entries_accept(4)[OF c ne] sm)
  have out: "length (outbox ?smtp) = 1"
    by (simp add: s post_api_entries_accept(3)[OF c ne] sm)
  from th1 obtain k n m where k: "cleanText (body_name bob_body) 40 = Inr n"
      "cleanText (body_message bob_body) 400 = Inr m"
      "response ?smtp = (200, JsonOk k)"
      "\<lparr>id' = k, name = sqlite_text n, message = sqlite_text m,
        created_at = sqlite_text (nowIso example_env), status = pending\<rparr>
         \<in> set (entries (db_after ?smtp))"
    by blast
  from k(1,2) c have nm: "n = utf16 ''Bob''" "m = utf16 ''hi''" by simp_all
  from k(3) r1 have "k = 5" by simp
  with k(4) have row: "\<lparr>id' = 5, name = utf16 ''Bob'', message = utf16 ''hi'',
        created_at = utf16 ''2024-01-01T00:00:00.000Z'', status = pending\<rparr>
        \<in> set (entries (db_after ?smtp))"
    by (simp only: nm sqlite_text_bob)
  from th2 hasSmtp_example_config have o2: "outbox ?plain = []" by blast
  from e nb hasSmtp_smtp_config fail r1 con out row hasSmtp_example_config o2 r2
  show ?thesis by blast
qed

end
